theory Spec2Isabelle
  imports Main "HOL-Library.Word" "HOL-Library.AList" "HOL-Library.Sublist"
begin

unbundle bit_operations_syntax

section \<open>The build command of the kore command line tool (src/cli.c)\<close>

text \<open>
  The development embeds the functions of \<^verbatim>\<open>src/cli.c\<close> that make up \<^verbatim>\<open>kore build\<close>:
  discovery of assets and sources, the staleness check, the asset embedder, the
  registry of compilation units, the compiler and linker argument vectors, the
  subprocess supervisor and \<^verbatim>\<open>cli_build\<close> itself.  Every function works on an explicit
  state (the file system, the two output streams, the trace of child processes and the
  globals of the C file) and either returns or ends the process through
  \<^verbatim>\<open>cli_fatal\<close>.  What the operating system and the external tool chain decide is read
  from a record of oracles, the \<open>world\<close>.
\<close>

subsection \<open>Data of the operating system\<close>

text \<open>A byte of a file is a \<^typ>\<open>char\<close>; \<^term>\<open>of_char\<close> gives its value below 256.\<close>
type_synonym byte = char
type_synonym path = string

text \<open>\<^verbatim>\<open>time_t\<close> on Linux x86-64, where \<^verbatim>\<open>PRI_TIME_T\<close> is \<^verbatim>\<open>PRIu64\<close>.\<close>
type_synonym time_t = "64 word"

datatype errno = ENOENT | EACCES | EEXIST | EISDIR | ENOTDIR | ENOSPC | EPERM
  | ENAMETOOLONG | EAGAIN | ECHILD | ENOEXEC | EIO | EBADF | ENODEV

text \<open>\<^verbatim>\<open>errno_s\<close> is \<^verbatim>\<open>strerror(errno)\<close>; the texts are those of the C library.\<close>
fun errno_s :: "errno \<Rightarrow> string" where
  "errno_s ENOENT = ''No such file or directory''"
| "errno_s EACCES = ''Permission denied''"
| "errno_s EEXIST = ''File exists''"
| "errno_s EISDIR = ''Is a directory''"
| "errno_s ENOTDIR = ''Not a directory''"
| "errno_s ENOSPC = ''No space left on device''"
| "errno_s EPERM = ''Operation not permitted''"
| "errno_s ENAMETOOLONG = ''File name too long''"
| "errno_s EAGAIN = ''Resource temporarily unavailable''"
| "errno_s ECHILD = ''No child processes''"
| "errno_s ENOEXEC = ''Exec format error''"
| "errno_s EIO = ''Input/output error''"
| "errno_s EBADF = ''Bad file descriptor''"
| "errno_s ENODEV = ''No such device''"

datatype mode = S_IFREG | S_IFDIR | S_IFOTHER

text \<open>
  The fields of \<^verbatim>\<open>struct stat\<close> the program reads.  \<^verbatim>\<open>st_size\<close> is an \<^verbatim>\<open>off_t\<close>; it is the
  length of a file and kept as a natural number, the cast to \<^verbatim>\<open>u_int32_t\<close> is written
  out where the program casts.
\<close>
record stat =
  st_mode :: mode
  st_size :: nat
  st_mtime :: time_t

text \<open>
  An entry of the file system: a regular file with its modification time and bytes, a
  directory, another kind of file, or a name on which \<^verbatim>\<open>stat\<close> fails with the given
  error (a dangling link, a directory that may not be searched).
\<close>
datatype inode = Reg time_t "byte list" | Dir time_t | Special time_t | Denied errno

text \<open>
  The file system is an association list from path names to entries.  The entries of a
  directory are the paths one component below it, in the order of the list.
\<close>
type_synonym filesys = "(path \<times> inode) list"

definition PATH_MAX :: nat where
  "PATH_MAX = 4096"

definition sys_stat :: "filesys \<Rightarrow> path \<Rightarrow> errno + stat" where
  "sys_stat fsys p =
     (if PATH_MAX \<le> length p then Inl ENAMETOOLONG
      else case map_of fsys p of
        None \<Rightarrow> Inl ENOENT
      | Some (Denied e) \<Rightarrow> Inl e
      | Some (Reg m d) \<Rightarrow> Inr \<lparr>st_mode = S_IFREG, st_size = length d, st_mtime = m\<rparr>
      | Some (Dir m) \<Rightarrow> Inr \<lparr>st_mode = S_IFDIR, st_size = 0, st_mtime = m\<rparr>
      | Some (Special m) \<Rightarrow> Inr \<lparr>st_mode = S_IFOTHER, st_size = 0, st_mtime = m\<rparr>)"

subsection \<open>The state of the process and its two ways to end\<close>

record cfile =
  cf_st :: stat
  cf_build :: bool
  cf_cpp :: bool
  cf_name :: string
  cf_fpath :: path
  cf_opath :: path

datatype driver = Compile cfile | Link

text \<open>
  What the process did with children: \<open>Forked d pid argv\<close> for a child that ran driver
  \<open>d\<close> and called \<^verbatim>\<open>execvp\<close> with \<open>argv\<close>, \<open>Waited pid\<close> for a \<^verbatim>\<open>waitpid\<close> on that pid.
\<close>
datatype proc_event = Forked driver int "string list" | Waited int

record state =
  fs :: filesys
  stdout :: "string list"
  stderr :: "string list"
  procs :: "proc_event list"
  command :: "string option"
  s_fd :: path
  appl :: string
  rootdir :: string
  compiler :: string
  source_files :: "cfile list"
  cfiles_count :: "32 word"

text \<open>
  \<open>Exit s\<close>: the process called \<^verbatim>\<open>exit(1)\<close> in state \<open>s\<close>.  \<open>Ret x s\<close>: the function
  returned \<open>x\<close> in state \<open>s\<close>.
\<close>
datatype 'a outcome = Exit state | Ret 'a state

definition bind :: "(state \<Rightarrow> 'a outcome) \<Rightarrow> ('a \<Rightarrow> state \<Rightarrow> 'b outcome) \<Rightarrow> state \<Rightarrow> 'b outcome" where
  "bind m k s = (case m s of Exit s' \<Rightarrow> Exit s' | Ret x s' \<Rightarrow> k x s')"

definition printf :: "string \<Rightarrow> state \<Rightarrow> state" where
  "printf str s = s\<lparr>stdout := stdout s @ [str]\<rparr>"

definition fprintf_stderr :: "string \<Rightarrow> state \<Rightarrow> state" where
  "fprintf_stderr str s = s\<lparr>stderr := stderr s @ [str]\<rparr>"

text \<open>
  \<^verbatim>\<open>cli_fatal\<close>: the message is cut to the 2048-byte buffer, printed with the name of the
  command, and the process exits.
\<close>
definition cli_fatal_text :: "string \<Rightarrow> state \<Rightarrow> string" where
  "cli_fatal_text msg s =
     (let buf = take 2047 msg in
      case command s of
        Some cname \<Rightarrow> ''kore '' @ cname @ '': '' @ buf @ ''\<newline>''
      | None \<Rightarrow> ''kore: '' @ buf @ ''\<newline>'')"

definition cli_fatal :: "string \<Rightarrow> state \<Rightarrow> 'a outcome" where
  "cli_fatal msg s = Exit (printf (cli_fatal_text msg s) s)"

subsection \<open>The staleness check\<close>

definition cli_file_requires_build :: "stat \<Rightarrow> path \<Rightarrow> state \<Rightarrow> bool outcome" where
  "cli_file_requires_build fst0 opath s =
     (case sys_stat (fs s) opath of
        Inl e \<Rightarrow>
          if e = ENOENT then Ret True s
          else cli_fatal (''stat('' @ opath @ ''): '' @ errno_s e) s
      | Inr ost \<Rightarrow> Ret (st_mtime fst0 \<noteq> st_mtime ost) s)"

subsection \<open>The world: what the system and the tool chain decide\<close>

text \<open>How a child ended: \<^verbatim>\<open>exit(code)\<close>, or a signal (with or without a core dump).\<close>
datatype child_end = Exited nat | Signaled nat bool

text \<open>
  The world is fixed during one run.  \<open>w_split_string str n\<close> stands for
  \<^verbatim>\<open>kore_split_string(str, " ", out, n)\<close>, a function of the repository whose source is
  not part of \<^verbatim>\<open>cli.c\<close>.  \<open>w_execvp file argv fsys\<close> is what the child does after
  \<^verbatim>\<open>execvp(file, argv)\<close>: the call fails with an error, or the program runs, ends, and
  leaves a file system.  \<open>w_fork n\<close> is the result of the \<open>n\<close>-th event of the process
  trace being a \<^verbatim>\<open>fork\<close>.  The macros \<^verbatim>\<open>__MACH__\<close>, \<^verbatim>\<open>PREFIX\<close>, \<^verbatim>\<open>KORE_USE_PGSQL\<close> (with
  \<^verbatim>\<open>PGSQL_INCLUDE_PATH\<close>) and \<^verbatim>\<open>KORE_NO_TLS\<close> are the fields \<open>w_mach\<close>, \<open>w_prefix\<close>,
  \<open>w_pgsql\<close> and \<open>w_no_tls\<close>.  \<open>w_certs\<close> is what the OpenSSL calls of
  \<^verbatim>\<open>cli_generate_certs\<close> produce: the name of the first failing call, or the PEM texts of
  key and certificate.  \<open>w_open_err p fl\<close> and \<open>w_mkdir_err p\<close> are the errors with which the
  system refuses \<^verbatim>\<open>open(p, fl)\<close> and \<^verbatim>\<open>mkdir(p)\<close> on a path that resolves: the permission bits
  (\<^verbatim>\<open>EACCES\<close>), a read-only file system, the limit of descriptors.  Failure of memory
  allocation is outside the model.
\<close>
datatype oflags = O_RDONLY | O_CREAT_TRUNC_WRONLY

record world =
  w_getenv :: "string \<Rightarrow> string option"
  w_getcwd :: "errno + string"
  w_now :: time_t
  w_mach :: bool
  w_prefix :: "string option"
  w_pgsql :: "string option"
  w_no_tls :: bool
  w_split_string :: "string \<Rightarrow> nat \<Rightarrow> string list"
  w_open_err :: "path \<Rightarrow> oflags \<Rightarrow> errno option"
  w_mkdir_err :: "path \<Rightarrow> errno option"
  w_write_err :: "path \<Rightarrow> errno option"
  w_close_err :: "path \<Rightarrow> errno option"
  w_fork :: "nat \<Rightarrow> errno + int"
  w_execvp :: "string \<Rightarrow> string list \<Rightarrow> filesys \<Rightarrow> errno + (child_end \<times> filesys)"
  w_waitpid :: "int \<Rightarrow> errno option"
  w_certs :: "string + (string \<times> string)"

subsection \<open>System calls on the file system\<close>

text \<open>\<^verbatim>\<open>strrchr(str, c)\<close> as the position of the last \<open>c\<close> in \<open>str\<close>, if there is one.\<close>
fun strrchr :: "string \<Rightarrow> char \<Rightarrow> nat option" where
  "strrchr [] c = None"
| "strrchr (x # xs) c =
     (case strrchr xs c of
        Some i \<Rightarrow> Some (Suc i)
      | None \<Rightarrow> if x = c then Some 0 else None)"

text \<open>
  A new entry is made in the directory of its path, the part before the last slash, and
  that directory has to exist: \<open>sys_parent\<close> is the error of the path resolution, if any.
  A path without a slash is an entry of the current directory; the current directory
  \<^verbatim>\<open>.\<close> and the root are there without an entry of the list.
\<close>
definition sys_parent :: "filesys \<Rightarrow> path \<Rightarrow> errno option" where
  "sys_parent fsys p =
     (case strrchr p (CHR ''/'') of
        None \<Rightarrow> None
      | Some i \<Rightarrow>
          if take i p = [] \<or> take i p = ''.'' then None
          else case map_of fsys (take i p) of
            None \<Rightarrow> Some ENOENT
          | Some (Dir m) \<Rightarrow> None
          | Some (Denied e) \<Rightarrow> Some e
          | Some _ \<Rightarrow> Some ENOTDIR)"

text \<open>
  A file descriptor is the path it was opened on; \<^verbatim>\<open>cli_build\<close> never unlinks a file it
  holds open.  \<^verbatim>\<open>open\<close> fails on a path that is too long, on a name that \<^verbatim>\<open>stat\<close> rejects,
  on a missing file unless it is to be created, on a file to be created in a directory
  that is missing, and when the system refuses the access.  A created or truncated file
  gets the time of the world's clock.
\<close>
definition sys_open :: "world \<Rightarrow> filesys \<Rightarrow> path \<Rightarrow> oflags \<Rightarrow> errno + filesys" where
  "sys_open w fsys p fl =
     (if PATH_MAX \<le> length p then Inl ENAMETOOLONG
      else case map_of fsys p of
        Some (Denied e) \<Rightarrow> Inl e
      | None \<Rightarrow>
          (case fl of
             O_RDONLY \<Rightarrow> Inl ENOENT
           | O_CREAT_TRUNC_WRONLY \<Rightarrow>
               (case sys_parent fsys p of
                  Some e \<Rightarrow> Inl e
                | None \<Rightarrow>
                    (case w_open_err w p fl of
                       Some e \<Rightarrow> Inl e
                     | None \<Rightarrow> Inr (AList.update p (Reg (w_now w) []) fsys))))
      | Some nd \<Rightarrow>
          (case w_open_err w p fl of
             Some e \<Rightarrow> Inl e
           | None \<Rightarrow>
               (case nd of
                  Reg m d \<Rightarrow>
                    (case fl of
                       O_RDONLY \<Rightarrow> Inr fsys
                     | O_CREAT_TRUNC_WRONLY \<Rightarrow> Inr (AList.update p (Reg (w_now w) []) fsys))
                | Dir m \<Rightarrow> (case fl of O_RDONLY \<Rightarrow> Inr fsys | O_CREAT_TRUNC_WRONLY \<Rightarrow> Inl EISDIR)
                | Special m \<Rightarrow> Inr fsys
                | Denied e \<Rightarrow> Inl e)))"

text \<open>
  \<^verbatim>\<open>write\<close> transfers the whole buffer or fails; the short counts and \<^verbatim>\<open>EINTR\<close> that the
  loop of \<^verbatim>\<open>cli_file_write\<close> absorbs are not modelled.
\<close>
definition sys_write :: "world \<Rightarrow> filesys \<Rightarrow> path \<Rightarrow> string \<Rightarrow> errno + filesys" where
  "sys_write w fsys fd buf =
     (case w_write_err w fd of
        Some e \<Rightarrow> Inl e
      | None \<Rightarrow>
          (case map_of fsys fd of
             Some (Reg m d) \<Rightarrow> Inr (AList.update fd (Reg (w_now w) (d @ buf)) fsys)
           | Some (Special m) \<Rightarrow> Inr fsys
           | _ \<Rightarrow> Inl EBADF))"

definition sys_mmap :: "filesys \<Rightarrow> path \<Rightarrow> nat \<Rightarrow> errno + string" where
  "sys_mmap fsys fd len =
     (case map_of fsys fd of
        Some (Reg m d) \<Rightarrow> Inr (take len d)
      | _ \<Rightarrow> Inl ENODEV)"

text \<open>\<^verbatim>\<open>mkdir\<close> makes a directory that is not there, in a directory that is.\<close>
definition sys_mkdir :: "world \<Rightarrow> filesys \<Rightarrow> path \<Rightarrow> errno + filesys" where
  "sys_mkdir w fsys p =
     (if PATH_MAX \<le> length p then Inl ENAMETOOLONG
      else case map_of fsys p of
        None \<Rightarrow>
          (case sys_parent fsys p of
             Some e \<Rightarrow> Inl e
           | None \<Rightarrow>
               (case w_mkdir_err w p of
                  Some e \<Rightarrow> Inl e
                | None \<Rightarrow> Inr (AList.update p (Dir (w_now w)) fsys)))
      | Some (Denied e) \<Rightarrow> Inl e
      | Some _ \<Rightarrow> Inl EEXIST)"

definition sys_unlink :: "filesys \<Rightarrow> path \<Rightarrow> errno + filesys" where
  "sys_unlink fsys p =
     (case map_of fsys p of
        None \<Rightarrow> Inl ENOENT
      | Some (Dir m) \<Rightarrow> Inl EISDIR
      | Some (Denied e) \<Rightarrow> Inl e
      | Some _ \<Rightarrow> Inr (AList.delete p fsys))"

text \<open>\<^verbatim>\<open>utimes(path, times)\<close> with both times set to \<open>t\<close> seconds.\<close>
definition sys_utimes :: "filesys \<Rightarrow> path \<Rightarrow> time_t \<Rightarrow> errno + filesys" where
  "sys_utimes fsys p t =
     (if PATH_MAX \<le> length p then Inl ENAMETOOLONG
      else case map_of fsys p of
        None \<Rightarrow> Inl ENOENT
      | Some (Denied e) \<Rightarrow> Inl e
      | Some (Reg m d) \<Rightarrow> Inr (AList.update p (Reg t d) fsys)
      | Some (Dir m) \<Rightarrow> Inr (AList.update p (Dir t) fsys)
      | Some (Special m) \<Rightarrow> Inr (AList.update p (Special t) fsys))"

text \<open>The names in directory \<open>d\<close>: the paths \<open>d/name\<close> with a non-empty name without a slash.\<close>
definition is_child :: "path \<Rightarrow> path \<Rightarrow> bool" where
  "is_child d p \<longleftrightarrow>
     take (Suc (length d)) p = d @ ''/'' \<and> drop (Suc (length d)) p \<noteq> [] \<and>
     CHR ''/'' \<notin> set (drop (Suc (length d)) p)"

definition dir_entries :: "filesys \<Rightarrow> path \<Rightarrow> string list" where
  "dir_entries fsys d = map (drop (Suc (length d))) (filter (is_child d) (map fst fsys))"

text \<open>\<^verbatim>\<open>opendir\<close> and the \<^verbatim>\<open>readdir\<close> calls after it: the entries, \<^verbatim>\<open>.\<close> and \<^verbatim>\<open>..\<close> first.\<close>
definition sys_opendir :: "filesys \<Rightarrow> path \<Rightarrow> errno + string list" where
  "sys_opendir fsys p =
     (if PATH_MAX \<le> length p then Inl ENAMETOOLONG
      else case map_of fsys p of
        None \<Rightarrow> Inl ENOENT
      | Some (Dir m) \<Rightarrow> Inr (''.'' # ''..'' # dir_entries fsys p)
      | Some (Denied e) \<Rightarrow> Inl e
      | Some _ \<Rightarrow> Inl ENOTDIR)"

subsection \<open>File helpers of cli.c\<close>

definition cli_mkdir :: "world \<Rightarrow> path \<Rightarrow> state \<Rightarrow> unit outcome" where
  "cli_mkdir w fpath s =
     (case sys_mkdir w (fs s) fpath of
        Inl e \<Rightarrow> cli_fatal (''cli_mkdir('' @ fpath @ ''): '' @ errno_s e) s
      | Inr fsys \<Rightarrow> Ret () (s\<lparr>fs := fsys\<rparr>))"

definition cli_file_exists :: "path \<Rightarrow> state \<Rightarrow> bool" where
  "cli_file_exists fpath s =
     (case sys_stat (fs s) fpath of
        Inl e \<Rightarrow> False
      | Inr st \<Rightarrow> st_mode st = S_IFREG)"

definition cli_dir_exists :: "path \<Rightarrow> state \<Rightarrow> bool" where
  "cli_dir_exists fpath s =
     (case sys_stat (fs s) fpath of
        Inl e \<Rightarrow> False
      | Inr st \<Rightarrow> st_mode st = S_IFDIR)"

definition cli_file_open :: "world \<Rightarrow> path \<Rightarrow> oflags \<Rightarrow> state \<Rightarrow> path outcome" where
  "cli_file_open w fpath flags s =
     (case sys_open w (fs s) fpath flags of
        Inl e \<Rightarrow> cli_fatal (''cli_file_open('' @ fpath @ ''): '' @ errno_s e) s
      | Inr fsys \<Rightarrow> Ret fpath (s\<lparr>fs := fsys\<rparr>))"

definition cli_file_close :: "world \<Rightarrow> path \<Rightarrow> state \<Rightarrow> unit outcome" where
  "cli_file_close w fd s =
     (case w_close_err w fd of
        Some e \<Rightarrow> Ret () (printf (''warning: close() '' @ errno_s e @ ''\<newline>'') s)
      | None \<Rightarrow> Ret () s)"

definition cli_file_write :: "world \<Rightarrow> path \<Rightarrow> string \<Rightarrow> state \<Rightarrow> unit outcome" where
  "cli_file_write w fd buf s =
     (case sys_write w (fs s) fd buf of
        Inl e \<Rightarrow> cli_fatal (''cli_file_write: '' @ errno_s e) s
      | Inr fsys \<Rightarrow> Ret () (s\<lparr>fs := fsys\<rparr>))"

text \<open>\<^verbatim>\<open>cli_file_writef\<close>: the caller's format is already expanded into \<open>buf\<close>.\<close>
definition cli_file_writef :: "world \<Rightarrow> path \<Rightarrow> string \<Rightarrow> state \<Rightarrow> unit outcome" where
  "cli_file_writef w fd buf s = cli_file_write w fd buf s"

definition cli_file_create :: "world \<Rightarrow> string \<Rightarrow> string \<Rightarrow> state \<Rightarrow> unit outcome" where
  "cli_file_create w fname fdata s =
     (let fpath = rootdir s @ ''/'' @ fname in
      bind (cli_file_open w fpath O_CREAT_TRUNC_WRONLY) (\<lambda>fd.
      bind (cli_file_write w fd fdata) (\<lambda>_.
      bind (cli_file_close w fd) (\<lambda>_ s'.
      Ret () (printf (''created '' @ fpath @ ''\<newline>'') s')))) s)"

subsection \<open>Formatting\<close>

definition hexdigit :: "nat \<Rightarrow> char" where
  "hexdigit n = ''0123456789abcdef'' ! n"

text \<open>\<^verbatim>\<open>%02x\<close> of a \<^verbatim>\<open>u_int8_t\<close>.\<close>
definition hex02 :: "byte \<Rightarrow> string" where
  "hex02 b = [hexdigit (of_char b div 16), hexdigit (of_char b mod 16)]"

text \<open>\<^verbatim>\<open>%u\<close> and its wider forms: the decimal digits of a natural number.\<close>
fun dec :: "nat \<Rightarrow> string" where
  "dec n = (if n < 10 then [hexdigit n] else dec (n div 10) @ [hexdigit (n mod 10)])"

declare dec.simps [simp del]

text \<open>\<^verbatim>\<open>%d\<close> of an \<^verbatim>\<open>int\<close>.\<close>
definition dec_int :: "int \<Rightarrow> string" where
  "dec_int i = (if i < 0 then ''-'' @ dec (nat (- i)) else dec (nat i))"

text \<open>\<^verbatim>\<open>isspace\<close> in the C locale.\<close>
definition isspace :: "char \<Rightarrow> bool" where
  "isspace c \<longleftrightarrow> c \<in> {CHR '' '', CHR 0x09, CHR 0x0A, CHR 0x0B, CHR 0x0C, CHR 0x0D}"

subsection \<open>The registry of compilation units\<close>

definition cli_add_cfile ::
  "string \<Rightarrow> path \<Rightarrow> path \<Rightarrow> stat \<Rightarrow> bool \<Rightarrow> bool \<Rightarrow> state \<Rightarrow> unit outcome" where
  "cli_add_cfile cname fpath opath st build cpp s =
     Ret () (s\<lparr>cfiles_count := cfiles_count s + 1,
               source_files := source_files s @
                 [\<lparr>cf_st = st, cf_build = build, cf_cpp = cpp, cf_name = cname,
                   cf_fpath = fpath, cf_opath = opath\<rparr>]\<rparr>)"

subsection \<open>The asset embedder\<close>

definition cli_write_asset :: "world \<Rightarrow> string \<Rightarrow> string \<Rightarrow> state \<Rightarrow> unit outcome" where
  "cli_write_asset w n e s =
     (bind (cli_file_writef w (s_fd s) (''extern u_int8_t asset_'' @ n @ ''_'' @ e @ ''[];\<newline>'')) (\<lambda>_.
      bind (cli_file_writef w (s_fd s) (''extern u_int32_t asset_len_'' @ n @ ''_'' @ e @ '';\<newline>'')) (\<lambda>_.
      cli_file_writef w (s_fd s) (''extern time_t asset_mtime_'' @ n @ ''_'' @ e @ '';\<newline>''))) s)"

text \<open>The loop of \<^verbatim>\<open>cli_build_asset\<close> that replaces dots, white space and dashes.\<close>
definition sanitize :: "string \<Rightarrow> string" where
  "sanitize cname = map (\<lambda>c. if c = CHR ''.'' \<or> isspace c \<or> c = CHR ''-'' then CHR ''_'' else c) cname"

text \<open>The loop of \<^verbatim>\<open>cli_build_asset\<close> over the mapped bytes, one \<^verbatim>\<open>cli_file_writef\<close> each.\<close>
fun cli_build_asset_bytes :: "world \<Rightarrow> path \<Rightarrow> string \<Rightarrow> state \<Rightarrow> unit outcome" where
  "cli_build_asset_bytes w out [] s = Ret () s"
| "cli_build_asset_bytes w out (b # bs) s =
     bind (cli_file_writef w out (''0x'' @ hex02 b @ '','')) (\<lambda>_. cli_build_asset_bytes w out bs) s"

text \<open>
  \<^verbatim>\<open>cli_build_asset(fpath, dp)\<close> with \<open>d_name\<close> for \<^verbatim>\<open>dp->d_name\<close>.  The pointer \<^verbatim>\<open>ext\<close> is the
  position \<open>i\<close> of the last dot of the name; after the replacement loop the character
  there is an underscore.  In the branch of an object that is up to date the C code
  writes a NUL at \<open>i\<close> and then an underscore at \<open>i + 1\<close>, so the registered name is the
  part before \<open>i\<close>; in the other branch it writes the dot back at \<open>i\<close>.
\<close>
definition cli_build_asset :: "world \<Rightarrow> path \<Rightarrow> string \<Rightarrow> state \<Rightarrow> unit outcome" where
  "cli_build_asset w fpath d_name s =
     (case strrchr d_name (CHR ''.'') of
        None \<Rightarrow> cli_fatal (''couldn't find ext in '' @ d_name) s
      | Some i \<Rightarrow>
          let cname = sanitize d_name in
          case sys_stat (fs s) fpath of
            Inl e \<Rightarrow> cli_fatal (''stat: '' @ fpath @ '' '' @ errno_s e) s
          | Inr st \<Rightarrow>
              if st_size st = 0 then
                Ret () (printf (''skipping empty asset '' @ cname @ ''\<newline>'') s)
              else
                let opath = rootdir s @ ''/.objs/'' @ cname @ ''.o'';
                    cpath = rootdir s @ ''/.objs/'' @ cname @ ''.c'';
                    n = take i cname;
                    ext = drop (Suc i) cname
                in
                bind (cli_file_requires_build st opath) (\<lambda>req.
                  if \<not> req then
                    bind (cli_write_asset w n ext) (\<lambda>_.
                    cli_add_cfile n cpath opath st False False)
                  else
                    bind (cli_file_open w fpath O_RDONLY) (\<lambda>in_fd s1.
                    case sys_mmap (fs s1) in_fd (st_size st) of
                      Inl e \<Rightarrow> cli_fatal (''mmap: '' @ fpath @ '' '' @ errno_s e) s1
                    | Inr base \<Rightarrow>
                       (bind (cli_file_open w cpath O_CREAT_TRUNC_WRONLY) (\<lambda>out s2.
                        (bind (cli_file_writef w out ''/* Auto generated */\<newline>'') (\<lambda>_.
                         bind (cli_file_writef w out ''#include <sys/param.h>\<newline>\<newline>'') (\<lambda>_.
                         bind (cli_file_writef w out
                                 (''u_int8_t asset_'' @ n @ ''_'' @ ext @ ''[] = {\<newline>'')) (\<lambda>_.
                         bind (cli_build_asset_bytes w out base) (\<lambda>_.
                         bind (cli_file_writef w out ''0x00'') (\<lambda>_.
                         bind (cli_file_writef w out ''};\<newline>\<newline>'') (\<lambda>_.
                         bind (cli_file_writef w out
                                 (''u_int32_t asset_len_'' @ n @ ''_'' @ ext @ '' = '' @
                                  dec (st_size st mod 2 ^ 32) @ '';\<newline>'')) (\<lambda>_.
                         bind (cli_file_writef w out
                                 (''time_t asset_mtime_'' @ n @ ''_'' @ ext @ '' = '' @
                                  dec (unat (st_mtime st)) @ '';\<newline>'')) (\<lambda>_.
                         bind (cli_write_asset w n ext) (\<lambda>_.
                         bind (cli_file_close w in_fd) (\<lambda>_.
                         bind (cli_file_close w out) (\<lambda>_.
                         cli_add_cfile (cname[i := CHR ''.'']) cpath opath st True False)))))))))))
                        (printf (''building asset '' @ d_name @ ''\<newline>'') s2))) s1))) s)"

subsection \<open>Registration of source files\<close>

text \<open>\<^verbatim>\<open>cli_register_cfile(fpath, dp)\<close>; the extension is looked for in the whole path.\<close>
definition cli_register_cfile :: "world \<Rightarrow> path \<Rightarrow> string \<Rightarrow> state \<Rightarrow> unit outcome" where
  "cli_register_cfile w fpath d_name s =
     (case strrchr fpath (CHR ''.'') of
        None \<Rightarrow> Ret () s
      | Some i \<Rightarrow>
          let ext = drop i fpath in
          if ext \<noteq> ''.c'' \<and> ext \<noteq> ''.cpp'' then Ret () s
          else
            let cpp = (ext = ''.cpp'') in
            case sys_stat (fs s) fpath of
              Inl e \<Rightarrow> cli_fatal (''stat('' @ fpath @ ''): '' @ errno_s e) s
            | Inr st \<Rightarrow>
                let opath = rootdir s @ ''/.objs/'' @ d_name @ ''.o'' in
                bind (cli_file_requires_build st opath) (\<lambda>req.
                  if \<not> req then cli_add_cfile d_name fpath opath st False cpp
                  else cli_add_cfile d_name fpath opath st True cpp) s)"

subsection \<open>The walker\<close>

text \<open>
  \<^verbatim>\<open>cli_find_files(path, cb)\<close>; \<open>find_entries\<close> is its \<^verbatim>\<open>readdir\<close> loop over the entries that
  are left.  The recursion ends because a path that \<^verbatim>\<open>stat\<close> accepts is shorter than
  \<open>PATH_MAX\<close> and each level makes the path longer.
\<close>
lemma sys_stat_Inr_length: "sys_stat fsys p = Inr st \<Longrightarrow> length p < PATH_MAX"
  by (auto simp: sys_stat_def split: if_splits)

function cli_find_files :: "path \<Rightarrow> (path \<Rightarrow> string \<Rightarrow> state \<Rightarrow> unit outcome) \<Rightarrow> state \<Rightarrow> unit outcome"
  and find_entries :: "path \<Rightarrow> (path \<Rightarrow> string \<Rightarrow> state \<Rightarrow> unit outcome) \<Rightarrow> string list \<Rightarrow> state \<Rightarrow> unit outcome"
where
  "cli_find_files fpath cb s =
     (case sys_opendir (fs s) fpath of
        Inl e \<Rightarrow> cli_fatal (''cli_find_files: opendir('' @ fpath @ ''): '' @ errno_s e) s
      | Inr ents \<Rightarrow> find_entries fpath cb ents s)"
| "find_entries dpath cb [] s = Ret () s"
| "find_entries dpath cb (d_name # rest) s =
     (if d_name = ''.'' \<or> d_name = ''..'' then find_entries dpath cb rest s
      else
        case sys_stat (fs s) (dpath @ ''/'' @ d_name) of
          Inl e \<Rightarrow>
            find_entries dpath cb rest
              (fprintf_stderr (''stat('' @ dpath @ ''/'' @ d_name @ ''): '' @ errno_s e @ ''\<newline>'') s)
        | Inr st \<Rightarrow>
            if st_mode st = S_IFDIR then
              (case cli_find_files (dpath @ ''/'' @ d_name) cb s of
                 Exit s' \<Rightarrow> Exit s'
               | Ret u s' \<Rightarrow> find_entries dpath cb rest s')
            else if st_mode st = S_IFREG then
              (case cb (dpath @ ''/'' @ d_name) d_name s of
                 Exit s' \<Rightarrow> Exit s'
               | Ret u s' \<Rightarrow> find_entries dpath cb rest s')
            else
              find_entries dpath cb rest
                (fprintf_stderr (''ignoring '' @ dpath @ ''/'' @ d_name @ ''\<newline>'') s))"
  by pat_completeness auto

termination
  by (relation "inv_image (less_than <*lex*> less_than <*lex*> less_than)
       (\<lambda>x. case x of
          Inl (p, cb, s) \<Rightarrow> (PATH_MAX - length p, 1::nat, 0::nat)
        | Inr (p, cb, ents, s) \<Rightarrow> (PATH_MAX - length p, 0, length ents))")
     (auto dest!: sys_stat_Inr_length)

subsection \<open>Compiler and linker drivers\<close>

definition CFLAGS_MAX :: nat where
  "CFLAGS_MAX = 10"

definition LD_FLAGS_MAX :: nat where
  "LD_FLAGS_MAX = 10"

text \<open>The argument vector that \<^verbatim>\<open>cli_compile_cfile\<close> passes to \<^verbatim>\<open>execvp(compiler, args)\<close>.\<close>
definition cli_compile_cfile :: "world \<Rightarrow> cfile \<Rightarrow> state \<Rightarrow> string list" where
  "cli_compile_cfile w cf s =
     [compiler s, ''-I'' @ rootdir s @ ''/src'', ''-I'' @ rootdir s @ ''/src/includes''] @
     [case w_prefix w of Some pre \<Rightarrow> ''-I'' @ pre @ ''/include'' | None \<Rightarrow> ''-I/usr/local/include''] @
     (if w_mach w then [''-I/opt/local/include'', ''-I/usr/local/opt/openssl/include''] else []) @
     (case w_getenv w ''CFLAGS'' of Some p \<Rightarrow> w_split_string w p CFLAGS_MAX | None \<Rightarrow> []) @
     (case w_pgsql w of Some pp \<Rightarrow> [''-I'' @ pp] | None \<Rightarrow> []) @
     [''-Wall'', ''-Wmissing-declarations'', ''-Wshadow'', ''-Wpointer-arith'', ''-Wcast-qual'',
      ''-Wsign-compare'', ''-fPIC'', ''-g''] @
     (if cf_cpp cf then
        [''-Woverloaded-virtual'', ''-Wold-style-cast'', ''-Wnon-virtual-dtor''] @
        (case w_getenv w ''CXXSTD'' of Some p \<Rightarrow> [''-std='' @ p] | None \<Rightarrow> [])
      else [''-Wstrict-prototypes'', ''-Wmissing-prototypes'']) @
     [''-c'', cf_fpath cf, ''-o'', cf_opath cf]"

text \<open>The argument vector that \<^verbatim>\<open>cli_link_library\<close> passes to \<^verbatim>\<open>execvp(compiler, args)\<close>.\<close>
definition cli_link_library :: "world \<Rightarrow> state \<Rightarrow> string list" where
  "cli_link_library w s =
     [compiler s] @
     (if w_mach w then [''-dynamiclib'', ''-undefined'', ''suppress'', ''-flat_namespace'']
      else [''-shared'']) @
     map cf_opath (source_files s) @
     (if \<exists>cf \<in> set (source_files s). cf_cpp cf then
        [case w_getenv w ''CXXLIB'' of Some p \<Rightarrow> ''-l'' @ p | None \<Rightarrow> ''-lstdc++'']
      else []) @
     (case w_getenv w ''LDFLAGS'' of Some p \<Rightarrow> w_split_string w p LD_FLAGS_MAX | None \<Rightarrow> []) @
     [''-o'', rootdir s @ ''/'' @ appl s @ ''.so'']"

definition driver_argv :: "world \<Rightarrow> driver \<Rightarrow> state \<Rightarrow> string list" where
  "driver_argv w d s = (case d of Compile cf \<Rightarrow> cli_compile_cfile w cf s | Link \<Rightarrow> cli_link_library w s)"

subsection \<open>The subprocess supervisor\<close>

text \<open>
  The status word that \<^verbatim>\<open>waitpid\<close> stores, and the three macros of \<^verbatim>\<open><sys/wait.h>\<close> that
  \<^verbatim>\<open>cli_spawn_proc\<close> applies to it (their Linux definitions).
\<close>
definition wait_status :: "child_end \<Rightarrow> 32 word" where
  "wait_status ce =
     (case ce of
        Exited code \<Rightarrow> push_bit 8 (of_nat (code mod 256))
      | Signaled sig core \<Rightarrow> of_nat (sig mod 128) OR (if core then 0x80 else 0))"

definition WEXITSTATUS :: "32 word \<Rightarrow> 32 word" where
  "WEXITSTATUS status = drop_bit 8 (status AND 0xff00)"

definition WTERMSIG :: "32 word \<Rightarrow> 32 word" where
  "WTERMSIG status = status AND 0x7f"

definition WCOREDUMP :: "32 word \<Rightarrow> 32 word" where
  "WCOREDUMP status = status AND 0x80"

text \<open>
  \<^verbatim>\<open>cli_spawn_proc(cb, arg)\<close>, with the driver \<open>d\<close> for the callback and its argument.  The
  child runs the driver, which ends in \<^verbatim>\<open>execvp\<close>; when that call fails the child itself
  goes through \<^verbatim>\<open>cli_fatal\<close>, which prints on the shared output and exits with status 1.
  The parent then waits for the pid that \<^verbatim>\<open>fork\<close> returned.
\<close>
definition cli_spawn_proc :: "world \<Rightarrow> driver \<Rightarrow> state \<Rightarrow> unit outcome" where
  "cli_spawn_proc w d s =
     (case w_fork w (length (procs s)) of
        Inl e \<Rightarrow> cli_fatal (''cli_compile_cfile: fork() '' @ errno_s e) s
      | Inr pid \<Rightarrow>
          let argv = driver_argv w d s;
              s1 = s\<lparr>procs := procs s @ [Forked d pid argv]\<rparr>;
              (child, s2) =
                (case w_execvp w (compiler s) argv (fs s) of
                   Inl e \<Rightarrow>
                     (Exited 1, printf (cli_fatal_text (''cli_spawn_proc: '' @ errno_s e) s1) s1)
                 | Inr (ce, fsys) \<Rightarrow> (ce, s1\<lparr>fs := fsys\<rparr>));
              s3 = s2\<lparr>procs := procs s2 @ [Waited pid]\<rparr>
          in
          case w_waitpid w pid of
            Some e \<Rightarrow> cli_fatal (''couldn't wait for child '' @ dec_int pid) s3
          | None \<Rightarrow>
              if WEXITSTATUS (wait_status child) \<noteq> 0 \<or> WTERMSIG (wait_status child) \<noteq> 0 \<or>
                 WCOREDUMP (wait_status child) \<noteq> 0
              then cli_fatal ''subprocess trouble, check output'' s3
              else Ret () s3)"

subsection \<open>Certificates\<close>

definition dh2048_data :: string where
  "dh2048_data =
     ''-----BEGIN DH PARAMETERS-----\<newline>'' @
     ''MIIBCAKCAQEAn4f4Qn5SudFjEYPWTbUaOTLUH85YWmmPFW1+b5bRa9ygr+1wfamv\<newline>'' @
     ''VKVT7jO8c4msSNikUf6eEfoH0H4VTCaj+Habwu+Sj+I416r3mliMD4SjNsUJrBrY\<newline>'' @
     ''Y0QV3ZUgZz4A8ARk/WwQcRl8+ZXJz34IaLwAcpyNhoV46iHVxW0ty8ND0U4DIku/\<newline>'' @
     ''PNayKimu4BXWXk4RfwNVP59t8DQKqjshZ4fDnbotskmSZ+e+FHrd+Kvrq/WButvV\<newline>'' @
     ''Bzy9fYgnUlJ82g/bziCI83R2xAdtH014fR63MpElkqdNeChb94pPbEdFlNUvYIBN\<newline>'' @
     ''xx2vTUQMqRbB4UdG2zuzzr5j98HDdblQ+wIBAg==\<newline>'' @
     ''-----END DH PARAMETERS-----''"

text \<open>
  \<^verbatim>\<open>cli_generate_certs\<close>.  The calls into OpenSSL between the Diffie-Hellman file and the
  two \<^verbatim>\<open>fopen\<close> calls are the oracle \<open>w_certs\<close>: \<open>Inl msg\<close> is the text of the \<^verbatim>\<open>cli_fatal\<close> of
  the first call that fails.
\<close>
definition cli_generate_certs :: "world \<Rightarrow> state \<Rightarrow> unit outcome" where
  "cli_generate_certs w s =
     (if w_no_tls w then Ret () s
      else
        bind (cli_file_create w ''dh2048.pem'' dh2048_data) (\<lambda>_ s1.
          case w_certs w of
            Inl msg \<Rightarrow> cli_fatal msg s1
          | Inr (key, crt) \<Rightarrow>
              (case sys_open w (fs s1) (rootdir s1 @ ''/cert/server.key'') O_CREAT_TRUNC_WRONLY of
                 Inl e \<Rightarrow>
                   cli_fatal (''fopen('' @ rootdir s1 @ ''/cert/server.key'' @ ''): '' @ errno_s e) s1
               | Inr fsys1 \<Rightarrow>
                   (case sys_write w fsys1 (rootdir s1 @ ''/cert/server.key'') key of
                      Inl e \<Rightarrow> cli_fatal ''PEM_write_PrivateKey(): '' (s1\<lparr>fs := fsys1\<rparr>)
                    | Inr fsys2 \<Rightarrow>
                        (case sys_open w fsys2 (rootdir s1 @ ''/cert/server.crt'')
                                O_CREAT_TRUNC_WRONLY of
                           Inl e \<Rightarrow>
                             cli_fatal (''fopen('' @ rootdir s1 @ ''/cert/server.crt'' @ ''): '' @
                                        errno_s e) (s1\<lparr>fs := fsys2\<rparr>)
                         | Inr fsys3 \<Rightarrow>
                             (case sys_write w fsys3 (rootdir s1 @ ''/cert/server.crt'') crt of
                                Inl e \<Rightarrow>
                                  cli_fatal (''PEM_write_X509('' @ errno_s e @ '')'')
                                    (s1\<lparr>fs := fsys3\<rparr>)
                              | Inr fsys4 \<Rightarrow> Ret () (s1\<lparr>fs := fsys4\<rparr>)))))) s)"

subsection \<open>The build\<close>

text \<open>\<^verbatim>\<open>basename\<close> of the C library.\<close>
definition basename :: "string \<Rightarrow> string" where
  "basename p =
     (let q = rev (dropWhile (\<lambda>c. c = CHR ''/'') (rev p)) in
      if p = [] then ''.''
      else if q = [] then ''/''
      else rev (takeWhile (\<lambda>c. c \<noteq> CHR ''/'') (rev q)))"

text \<open>
  \<^verbatim>\<open>cli_build\<close>, lines 296 to 325: the application name and root, the compiler, the empty
  registry, the check that this is a kore application, and the object directory.
\<close>
definition cli_build_init :: "world \<Rightarrow> string list \<Rightarrow> state \<Rightarrow> unit outcome" where
  "cli_build_init w argv s =
     bind (\<lambda>s0.
        case argv of
          [] \<Rightarrow>
            (case w_getcwd w of
               Inl e \<Rightarrow> cli_fatal (''could not get cwd: '' @ errno_s e) s0
             | Inr pwd \<Rightarrow> Ret () (s0\<lparr>rootdir := ''.'', appl := basename pwd\<rparr>))
        | a # as \<Rightarrow> Ret () (s0\<lparr>appl := a, rootdir := a\<rparr>))
     (\<lambda>_ s1.
        let s2 = (case w_getenv w ''CC'' of Some p \<Rightarrow> s1\<lparr>compiler := p\<rparr> | None \<Rightarrow> s1);
            s3 = s2\<lparr>cfiles_count := 0, source_files := []\<rparr>
        in
        if \<not> cli_dir_exists (rootdir s3 @ ''/src'') s3 \<or>
           \<not> cli_file_exists (rootdir s3 @ ''/conf/'' @ appl s3 @ ''.conf'') s3
        then cli_fatal (appl s3 @ '' doesn't appear to be a kore app'') s3
        else if \<not> cli_dir_exists (rootdir s3 @ ''/.objs'') s3
        then cli_mkdir w (rootdir s3 @ ''/.objs'') s3
        else Ret () s3) s"

text \<open>The result of \<^verbatim>\<open>(void)unlink(path)\<close>: a failure is ignored.\<close>
definition unlink_void :: "path \<Rightarrow> state \<Rightarrow> state" where
  "unlink_void p s = (case sys_unlink (fs s) p of Inl e \<Rightarrow> s | Inr fsys \<Rightarrow> s\<lparr>fs := fsys\<rparr>)"

text \<open>\<^verbatim>\<open>cli_build\<close>, lines 327 to 341: the asset header and the walk over the assets.\<close>
definition cli_build_assets :: "world \<Rightarrow> state \<Rightarrow> unit outcome" where
  "cli_build_assets w s =
     (let assets_header = rootdir s @ ''/src/assets.h'';
          assets_path = rootdir s @ ''/assets'';
          s1 = unlink_void assets_header s
      in
      if cli_dir_exists assets_path s1 then
        bind (cli_file_open w assets_header O_CREAT_TRUNC_WRONLY) (\<lambda>fd s2.
          bind (cli_file_writef w fd ''#ifndef __H_KORE_ASSETS_H\<newline>'') (\<lambda>_.
          bind (cli_file_writef w fd ''#define __H_KORE_ASSETS_H\<newline>'') (\<lambda>_.
          bind (cli_find_files assets_path (cli_build_asset w)) (\<lambda>_.
          bind (cli_file_writef w fd ''\<newline>#endif\<newline>'') (\<lambda>_.
          cli_file_close w fd)))) (s2\<lparr>s_fd := fd\<rparr>)) s1
      else Ret () s1)"

text \<open>\<^verbatim>\<open>cli_build\<close>, line 344: the walk over the sources.\<close>
definition cli_build_sources :: "world \<Rightarrow> state \<Rightarrow> unit outcome" where
  "cli_build_sources w s = cli_find_files (rootdir s @ ''/src'') (cli_register_cfile w) s"

text \<open>
  \<^verbatim>\<open>cli_build\<close>, lines 347 to 364: the loop over the registry, \<open>cfs\<close> being the units still
  to visit and \<open>requires_relink\<close> the C \<^verbatim>\<open>int\<close> counter.
\<close>
fun cli_build_compile :: "world \<Rightarrow> cfile list \<Rightarrow> 32 word \<Rightarrow> state \<Rightarrow> (32 word) outcome" where
  "cli_build_compile w [] requires_relink s = Ret requires_relink s"
| "cli_build_compile w (cf # cfs) requires_relink s =
     (if \<not> cf_build cf then cli_build_compile w cfs requires_relink s
      else
        bind (cli_spawn_proc w (Compile cf)) (\<lambda>_ s1.
          let s2 = (case sys_utimes (fs s1) (cf_opath cf) (st_mtime (cf_st cf)) of
                      Inl e \<Rightarrow> printf (''utime('' @ cf_opath cf @ ''): '' @ errno_s e @ ''\<newline>'') s1
                    | Inr fsys \<Rightarrow> s1\<lparr>fs := fsys\<rparr>)
          in cli_build_compile w cfs (requires_relink + 1) s2)
        (printf (''compiling '' @ cf_name cf @ ''\<newline>'') s))"

text \<open>\<^verbatim>\<open>cli_build\<close>, lines 366 to 381: the header is removed, certificates, link or not.\<close>
definition cli_build_finish :: "world \<Rightarrow> 32 word \<Rightarrow> state \<Rightarrow> unit outcome" where
  "cli_build_finish w requires_relink s =
     (let s1 = unlink_void (rootdir s @ ''/src/assets.h'') s in
      bind (\<lambda>s2.
        if \<not> cli_dir_exists (rootdir s2 @ ''/cert'') s2 then
          bind (cli_mkdir w (rootdir s2 @ ''/cert'')) (\<lambda>_. cli_generate_certs w) s2
        else Ret () s2)
      (\<lambda>_ s3.
        if requires_relink \<noteq> 0 then
          bind (cli_spawn_proc w Link) (\<lambda>_ s4.
            Ret () (printf (appl s4 @ '' built successfully!\<newline>'') s4)) s3
        else Ret () (printf ''nothing to be done\<newline>'' s3)) s1)"

definition cli_build :: "world \<Rightarrow> string list \<Rightarrow> state \<Rightarrow> unit outcome" where
  "cli_build w argv s =
     bind (cli_build_init w argv) (\<lambda>_.
     bind (cli_build_assets w) (\<lambda>_.
     bind (cli_build_sources w) (\<lambda>_ s1.
     bind (cli_build_compile w (source_files s1) 0) (\<lambda>requires_relink.
     cli_build_finish w requires_relink) s1))) s"

definition state_of :: "'a outcome \<Rightarrow> state" where
  "state_of r = (case r of Exit s \<Rightarrow> s | Ret x s \<Rightarrow> s)"

definition returned :: "'a outcome \<Rightarrow> bool" where
  "returned r = (case r of Exit s \<Rightarrow> False | Ret x s \<Rightarrow> True)"

subsection \<open>A concrete world and start state, for evaluation\<close>

text \<open>
  A tool chain that always succeeds and writes the file named by the last argument (the
  argument of \<^verbatim>\<open>-o\<close> for the compiler and for the linker).
\<close>
definition demo_execvp :: "string \<Rightarrow> string list \<Rightarrow> filesys \<Rightarrow> errno + (child_end \<times> filesys)" where
  "demo_execvp file argv fsys = Inr (Exited 0, AList.update (last argv) (Reg 5000 ''ELF'') fsys)"

definition demo_world :: world where
  "demo_world =
     \<lparr>w_getenv = (\<lambda>v. None), w_getcwd = Inr ''/home/dev/app'', w_now = 5000, w_mach = False,
      w_prefix = None, w_pgsql = None, w_no_tls = True, w_split_string = (\<lambda>str n. []),
      w_open_err = (\<lambda>p fl. None), w_mkdir_err = (\<lambda>p. None),
      w_write_err = (\<lambda>p. None), w_close_err = (\<lambda>p. None),
      w_fork = (\<lambda>n. Inr (100 + int n)), w_execvp = demo_execvp,
      w_waitpid = (\<lambda>pid. None), w_certs = Inl ''X509_new()''\<rparr>"

text \<open>The state in which \<^verbatim>\<open>kore_cli_main\<close> calls the command \<open>cname\<close> on file system \<open>fsys\<close>.\<close>
definition start_state :: "string \<Rightarrow> filesys \<Rightarrow> state" where
  "start_state cname fsys =
     \<lparr>fs = fsys, stdout = [], stderr = [], procs = [], command = Some cname, s_fd = [],
      appl = [], rootdir = [], compiler = ''gcc'', source_files = [], cfiles_count = 0\<rparr>"

subsection \<open>Reading generated C text\<close>

text \<open>
  To say what the generated array holds, its initializer is read back: the elements
  between the commas, the value of a literal \<^verbatim>\<open>0x..\<close>, and the value of a decimal
  literal.  \<open>asset_source\<close> is the layout of the file that \<^verbatim>\<open>cli_build_asset\<close> writes,
  with the array body and the two constants left open.
\<close>
fun split_on :: "char \<Rightarrow> string \<Rightarrow> string list" where
  "split_on c [] = [[]]"
| "split_on c (x # xs) =
     (if x = c then [] # split_on c xs
      else case split_on c xs of y # ys \<Rightarrow> (x # y) # ys | [] \<Rightarrow> [[x]])"

definition digit_of :: "char \<Rightarrow> nat" where
  "digit_of c = length (takeWhile (\<lambda>d. d \<noteq> c) ''0123456789abcdef'')"

fun digits_value :: "nat \<Rightarrow> nat \<Rightarrow> string \<Rightarrow> nat option" where
  "digits_value base acc [] = Some acc"
| "digits_value base acc (d # ds) =
     (if digit_of d < base then digits_value base (base * acc + digit_of d) ds else None)"

definition c_hex_literal :: "string \<Rightarrow> nat option" where
  "c_hex_literal str =
     (if take 2 str = ''0x'' \<and> 2 < length str then digits_value 16 0 (drop 2 str) else None)"

definition c_dec_literal :: "string \<Rightarrow> nat option" where
  "c_dec_literal str = (if str = [] then None else digits_value 10 0 str)"


definition asset_source :: "string \<Rightarrow> string \<Rightarrow> string \<Rightarrow> string \<Rightarrow> string \<Rightarrow> string" where
  "asset_source n ext body len mt =
     ''/* Auto generated */\<newline>'' @ ''#include <sys/param.h>\<newline>\<newline>'' @
     ''u_int8_t asset_'' @ n @ ''_'' @ ext @ ''[] = {\<newline>'' @ body @ ''};\<newline>\<newline>'' @
     ''u_int32_t asset_len_'' @ n @ ''_'' @ ext @ '' = '' @ len @ '';\<newline>'' @
     ''time_t asset_mtime_'' @ n @ ''_'' @ ext @ '' = '' @ mt @ '';\<newline>''"


text \<open>A state of \<^verbatim>\<open>cli_build\<close> during discovery of the application \<^verbatim>\<open>app\<close>.\<close>
definition demo_state :: "filesys \<Rightarrow> state" where
  "demo_state fsys =
     \<lparr>fs = fsys, stdout = [], stderr = [], procs = [], command = Some ''build'',
      s_fd = ''app/src/assets.h'', appl = ''app'', rootdir = ''app'', compiler = ''gcc'',
      source_files = [], cfiles_count = 0\<rparr>"

subsection \<open>Notions used to state and prove the properties\<close>

text \<open>The drivers of the children in a process trace, in the order they were forked.\<close>
fun spawned :: "proc_event list \<Rightarrow> driver list" where
  "spawned [] = []"
| "spawned (Forked d pid argv # evs) = d # spawned evs"
| "spawned (Waited pid # evs) = spawned evs"


text \<open>
  Observations of the state that do not look at the file system and the output streams,
  at the registry, at the process trace, or at the descriptor of the asset header; and
  the functions that keep such an observation, whether they return or exit.
\<close>
definition io_blind :: "(state \<Rightarrow> 'a) \<Rightarrow> bool" where
  "io_blind f \<longleftrightarrow>
     (\<forall>s x. f (s\<lparr>fs := x\<rparr>) = f s) \<and> (\<forall>s x. f (s\<lparr>stdout := x\<rparr>) = f s) \<and>
     (\<forall>s x. f (s\<lparr>stderr := x\<rparr>) = f s)"

definition reg_blind :: "(state \<Rightarrow> 'a) \<Rightarrow> bool" where
  "reg_blind f \<longleftrightarrow>
     (\<forall>s x. f (s\<lparr>source_files := x\<rparr>) = f s) \<and> (\<forall>s x. f (s\<lparr>cfiles_count := x\<rparr>) = f s)"


definition ctx_blind :: "(state \<Rightarrow> 'a) \<Rightarrow> bool" where
  "ctx_blind f \<longleftrightarrow> (\<forall>s x. f (s\<lparr>procs := x\<rparr>) = f s)"

definition fd_blind :: "(state \<Rightarrow> 'a) \<Rightarrow> bool" where
  "fd_blind f \<longleftrightarrow> (\<forall>s x. f (s\<lparr>s_fd := x\<rparr>) = f s)"


definition keeps :: "(state \<Rightarrow> 'b) \<Rightarrow> (state \<Rightarrow> 'a outcome) \<Rightarrow> bool" where
  "keeps f m \<longleftrightarrow> (\<forall>s. f (state_of (m s)) = f s)"


definition demo_fs :: filesys where
  "demo_fs = [(''app'', Dir 1), (''app/src'', Dir 1), (''app/conf/app.conf'', Reg 1 []), (''app/cert'', Dir 1),
     (''app/src/x.c'', Reg 10 ''int a;'')]"

text \<open>An application with one asset, during discovery: the asset header is open and empty.\<close>
definition asset_fs :: filesys where
  "asset_fs = [(''app'', Dir 1), (''app/.objs'', Dir 1), (''app/assets'', Dir 1), (''app/src'', Dir 1),
     (''app/assets/a.txt'', Reg 100 ''hi''), (''app/src/assets.h'', Reg 5000 [])]"

definition demo_unit :: cfile where
  "demo_unit =
     \<lparr>cf_st = \<lparr>st_mode = S_IFREG, st_size = 6, st_mtime = 10\<rparr>, cf_build = True, cf_cpp = False,
      cf_name = ''x.c'', cf_fpath = ''app/src/x.c'', cf_opath = ''app/.objs/x.c.o''\<rparr>"

definition demo_compile_argv :: "string list" where
  "demo_compile_argv =
     [''gcc'', ''-Iapp/src'', ''-Iapp/src/includes'', ''-I/usr/local/include'', ''-Wall'',
      ''-Wmissing-declarations'', ''-Wshadow'', ''-Wpointer-arith'', ''-Wcast-qual'',
      ''-Wsign-compare'', ''-fPIC'', ''-g'', ''-Wstrict-prototypes'', ''-Wmissing-prototypes'',
      ''-c'', ''app/src/x.c'', ''-o'', ''app/.objs/x.c.o'']"

text \<open>The state after the first build of \<open>demo_fs\<close>, and after the build that follows it.\<close>
definition demo_built :: state where
  "demo_built =
     \<lparr>fs = [(''app'', Dir 1), (''app/src'', Dir 1), (''app/conf/app.conf'', Reg 1 []), (''app/cert'', Dir 1),
            (''app/src/x.c'', Reg 10 ''int a;''), (''app/.objs'', Dir 5000),
            (''app/.objs/x.c.o'', Reg 10 ''ELF''), (''app/app.so'', Reg 5000 ''ELF'')],
      stdout = [''compiling x.c\<newline>'', ''app built successfully!\<newline>''],
      stderr = [],
      procs = [Forked (Compile demo_unit) 100 demo_compile_argv, Waited 100,
               Forked Link 102 [''gcc'', ''-shared'', ''app/.objs/x.c.o'', ''-o'', ''app/app.so''],
               Waited 102],
      command = Some ''build'', s_fd = [], appl = ''app'', rootdir = ''app'', compiler = ''gcc'',
      source_files = [demo_unit], cfiles_count = 1\<rparr>"

definition demo_rebuilt :: state where
  "demo_rebuilt =
     \<lparr>fs = [(''app'', Dir 1), (''app/src'', Dir 1), (''app/conf/app.conf'', Reg 1 []), (''app/cert'', Dir 1),
            (''app/src/x.c'', Reg 10 ''int a;''), (''app/.objs'', Dir 5000),
            (''app/.objs/x.c.o'', Reg 10 ''ELF''), (''app/app.so'', Reg 5000 ''ELF'')],
      stdout = [''nothing to be done\<newline>''],
      stderr = [], procs = [],
      command = Some ''build'', s_fd = [], appl = ''app'', rootdir = ''app'', compiler = ''gcc'',
      source_files = [demo_unit\<lparr>cf_build := False\<rparr>], cfiles_count = 1\<rparr>"


definition crash_world :: world where
  "crash_world = demo_world\<lparr>w_execvp := (\<lambda>file argv fsys. Inr (Signaled 11 True, fsys))\<rparr>"







section \<open>Properties\<close>

subsection \<open>Basic facts\<close>

lemma bind_Ret: "m s = Ret x s' \<Longrightarrow> bind m k s = k x s'"
  by (simp add: bind_def)

lemma bind_Exit: "m s = Exit s' \<Longrightarrow> bind m k s = Exit s'"
  by (simp add: bind_def)

lemma strrchr_less: "strrchr xs c = Some i \<Longrightarrow> i < length xs"
  by (induction xs arbitrary: i) (auto split: option.splits if_splits)

lemma strrchr_nth: "strrchr xs c = Some i \<Longrightarrow> xs ! i = c"
  by (induction xs arbitrary: i) (auto split: option.splits if_splits)

lemma strrchr_None: "strrchr xs c = None \<longleftrightarrow> c \<notin> set xs"
  by (induction xs) (auto split: option.splits if_splits)

lemma strrchr_append:
  "strrchr (xs @ ys) c =
     (case strrchr ys c of Some i \<Rightarrow> Some (length xs + i) | None \<Rightarrow> strrchr xs c)"
  by (induction xs) (auto split: option.splits)

lemma bind_RetE:
  assumes "bind m k s = Ret y s''"
  obtains x s' where "m s = Ret x s'" "k x s' = Ret y s''"
  using assms by (auto simp: bind_def split: outcome.splits)

lemma state_of_simps [simp]: "state_of (Exit s) = s" "state_of (Ret x s) = s"
  by (simp_all add: state_of_def)

lemma returned_simps [simp]: "returned (Exit s) = False" "returned (Ret x s) = True"
  by (simp_all add: returned_def)

subsection \<open>Files of the source tree that are not C or C++ sources\<close>

text \<open>
  C10.  The walker calls \<^verbatim>\<open>cli_register_cfile\<close> with the path \<open>dpath/d_name\<close> of a regular
  file.  When the entry name has no dot, or the part of the name from its last dot on is
  neither \<^verbatim>\<open>.c\<close> nor \<^verbatim>\<open>.cpp\<close>, the call returns in the state it was given: no unit is
  registered, nothing is printed on either stream, and the walk goes on.
\<close>
theorem cli_register_cfile_ignores:
  assumes "strrchr d_name (CHR ''.'') = None \<or>
           (\<exists>i. strrchr d_name (CHR ''.'') = Some i \<and>
                drop i d_name \<noteq> ''.c'' \<and> drop i d_name \<noteq> ''.cpp'')"
  shows "cli_register_cfile w (dpath @ ''/'' @ d_name) d_name s = Ret () s"
proof -
  from assms show ?thesis
  proof
    assume n: "strrchr d_name (CHR ''.'') = None"
    show ?thesis
    proof (cases "strrchr dpath (CHR ''.'')")
      case None
      with n show ?thesis
        by (simp add: cli_register_cfile_def strrchr_append)
    next
      case (Some j)
      then have j: "j < length dpath" by (rule strrchr_less)
      have r: "strrchr (dpath @ ''/'' @ d_name) (CHR ''.'') = Some j"
        using n Some by (simp add: strrchr_append)
      have "CHR ''/'' \<in> set (drop j (dpath @ ''/'' @ d_name))"
        using j by simp
      moreover have "CHR ''/'' \<notin> set ''.c''" "CHR ''/'' \<notin> set ''.cpp''" by simp_all
      ultimately have "drop j (dpath @ ''/'' @ d_name) \<noteq> ''.c'' \<and>
          drop j (dpath @ ''/'' @ d_name) \<noteq> ''.cpp''"
        by metis
      with r show ?thesis
        by (simp add: cli_register_cfile_def Let_def del: drop_append)
    qed
  next
    assume "\<exists>i. strrchr d_name (CHR ''.'') = Some i \<and>
        drop i d_name \<noteq> ''.c'' \<and> drop i d_name \<noteq> ''.cpp''"
    then obtain i where i: "strrchr d_name (CHR ''.'') = Some i"
      and e: "drop i d_name \<noteq> ''.c''" "drop i d_name \<noteq> ''.cpp''" by blast
    have r: "strrchr (dpath @ ''/'' @ d_name) (CHR ''.'') = Some (length dpath + (1 + i))"
      using i by (simp add: strrchr_append)
    have "drop (length dpath + (1 + i)) (dpath @ ''/'' @ d_name) = drop i d_name"
      by simp
    with r e show ?thesis
      by (simp add: cli_register_cfile_def Let_def del: drop_append)
  qed
qed

theorem cli_register_cfile_ignores_witness:
  "cli_register_cfile demo_world (''app/src'' @ ''/'' @ ''Makefile'') ''Makefile''
     (start_state ''build'' [(''app/src/Makefile'', Reg 7 ''all:'')])
   = Ret () (start_state ''build'' [(''app/src/Makefile'', Reg 7 ''all:'')]) \<and>
   cli_register_cfile demo_world (''app/src'' @ ''/'' @ ''page.h'') ''page.h''
     (start_state ''build'' [(''app/src/page.h'', Reg 7 ''int x;'')])
   = Ret () (start_state ''build'' [(''app/src/page.h'', Reg 7 ''int x;'')])"
  using
    cli_register_cfile_ignores [of "''Makefile''" demo_world "''app/src''"
      "start_state ''build'' [(''app/src/Makefile'', Reg 7 ''all:'')]"]
    cli_register_cfile_ignores [of "''page.h''" demo_world "''app/src''"
      "start_state ''build'' [(''app/src/page.h'', Reg 7 ''int x;'')]"]
  by simp

subsection \<open>Writing and reading back\<close>

lemma sys_stat_Reg:
  "length p < PATH_MAX \<Longrightarrow> map_of fsys p = Some (Reg m d) \<Longrightarrow>
   sys_stat fsys p = Inr \<lparr>st_mode = S_IFREG, st_size = length d, st_mtime = m\<rparr>"
  by (simp add: sys_stat_def)


lemma cli_file_writef_Reg:
  "w_write_err w fd = None \<Longrightarrow> map_of (fs s) fd = Some (Reg m d) \<Longrightarrow>
   cli_file_writef w fd buf s = Ret () (s\<lparr>fs := AList.update fd (Reg (w_now w) (d @ buf)) (fs s)\<rparr>)"
  by (simp add: cli_file_writef_def cli_file_write_def sys_write_def)

lemma cli_write_asset_Reg:
  assumes "w_write_err w (s_fd s) = None" "map_of (fs s) (s_fd s) = Some (Reg m d)"
  shows "cli_write_asset w n e s =
     Ret () (s\<lparr>fs := AList.update (s_fd s) (Reg (w_now w)
        (d @ ''extern u_int8_t asset_'' @ n @ ''_'' @ e @ ''[];\<newline>'' @
             ''extern u_int32_t asset_len_'' @ n @ ''_'' @ e @ '';\<newline>'' @
             ''extern time_t asset_mtime_'' @ n @ ''_'' @ e @ '';\<newline>'')) (fs s)\<rparr>)"
  unfolding cli_write_asset_def
  using assms
  by (simp add: bind_def cli_file_writef_Reg update_conv')


lemma cli_build_asset_bytes_Reg:
  "w_write_err w out = None \<Longrightarrow> map_of (fs s) out = Some (Reg (w_now w) d) \<Longrightarrow>
   cli_build_asset_bytes w out bs s =
     Ret () (s\<lparr>fs := AList.update out
        (Reg (w_now w) (d @ concat (map (\<lambda>b. ''0x'' @ hex02 b @ '','') bs))) (fs s)\<rparr>)"
proof (induction bs arbitrary: s d)
  case Nil
  then show ?case by (simp add: update_triv)
next
  case (Cons b bs)
  show ?case
    using Cons.prems
    by (simp add: bind_def cli_file_writef_Reg Cons.IH update_conv')
qed


lemma lt16_cases:
  "n < 16 \<Longrightarrow> n \<in> {0, 1, 2, 3, 4, 5, 6, 7, 8, 9, 10, 11, 12, 13, 14, 15::nat}"
  by simp arith

lemma byte_nibbles: "(of_char (b::char) :: nat) div 16 < 16" "(of_char (b::char) :: nat) mod 16 < 16"
proof -
  have "(of_char b :: nat) < 16 * 16" by (cases b) simp
  then show "(of_char (b::char) :: nat) div 16 < 16" by (rule less_mult_imp_div_less)
  show "(of_char (b::char) :: nat) mod 16 < 16" by simp
qed

lemma digit_of_hexdigit: "n < 16 \<Longrightarrow> digit_of (hexdigit n) = n"
  by (drule lt16_cases) (auto simp: digit_of_def hexdigit_def)

lemma hexdigit_not_comma: "n < 16 \<Longrightarrow> hexdigit n \<noteq> CHR '',''"
  by (drule lt16_cases) (auto simp: hexdigit_def)

lemma of_char_byte: "(of_char (b::char) :: nat) < 256"
  by (cases b) simp

lemma c_hex_literal_hex02: "c_hex_literal (''0x'' @ hex02 b) = Some (of_char b)"
proof -
  show ?thesis
    by (simp add: c_hex_literal_def hex02_def digit_of_hexdigit byte_nibbles)
qed

lemma split_on_no: "c \<notin> set xs \<Longrightarrow> split_on c (xs @ c # ys) = xs # split_on c ys"
  by (induction xs) (auto split: list.splits)

lemma split_on_last: "c \<notin> set xs \<Longrightarrow> split_on c xs = [xs]"
  by (induction xs) (auto split: list.splits)

lemma hex02_no_comma: "CHR '','' \<notin> set (hex02 b)"
proof -
  show ?thesis
    by (simp add: hex02_def hexdigit_not_comma [THEN not_sym] byte_nibbles)
qed

lemma split_on_elems:
  "split_on (CHR '','') (concat (map (\<lambda>b. ''0x'' @ hex02 b @ '','') bs) @ ''0x00'')
   = map (\<lambda>b. ''0x'' @ hex02 b) bs @ [''0x00'']"
proof (induction bs)
  case Nil
  show ?case by simp
next
  case (Cons b bs)
  have "CHR '','' \<notin> set (''0x'' @ hex02 b)" using hex02_no_comma by simp
  from split_on_no [OF this] Cons show ?case by simp
qed

lemma elems_values:
  "map c_hex_literal (split_on (CHR '','') (concat (map (\<lambda>b. ''0x'' @ hex02 b @ '','') bs) @ ''0x00''))
   = map (\<lambda>b. Some (of_char b)) bs @ [Some 0]"
proof -
  have "c_hex_literal ''0x00'' = Some 0" by (simp add: c_hex_literal_def digit_of_def)
  then show ?thesis
    unfolding split_on_elems using c_hex_literal_hex02 by simp
qed

lemma digits_value_append:
  "digits_value base acc (xs @ ys) =
     (case digits_value base acc xs of None \<Rightarrow> None | Some a \<Rightarrow> digits_value base a ys)"
  by (induction xs arbitrary: acc) auto

lemma digits_value_dec: "digits_value 10 0 (dec n) = Some n"
proof (induction n rule: dec.induct)
  case (1 n)
  show ?case
  proof (cases "n < 10")
    case True
    then have "digit_of (hexdigit n) = n" by (simp add: digit_of_hexdigit)
    with True show ?thesis by (subst dec.simps) simp
  next
    case False
    have "digit_of (hexdigit (n mod 10)) = n mod 10" by (simp add: digit_of_hexdigit)
    moreover have "n mod 10 < 10" by simp
    ultimately show ?thesis
      using False 1 by (subst dec.simps) (simp add: digits_value_append)
  qed
qed

lemma dec_nonempty: "dec n \<noteq> []"
  by (subst dec.simps) simp

lemma c_dec_literal_dec: "c_dec_literal (dec n) = Some n"
  by (simp add: c_dec_literal_def dec_nonempty digits_value_dec)


subsection \<open>Empty assets\<close>

text \<open>
  C7, as amended.  For a zero-byte regular file of the assets tree whose entry name
  contains a dot, \<^verbatim>\<open>cli_build_asset\<close> returns after printing one line
  \<^verbatim>\<open>skipping empty asset <name>\<close> (the name with dots, white space and dashes replaced):
  the file system (so the generated sources and the asset header), the registry and its
  counter, the error stream and the process trace are the ones it was given.
\<close>
theorem cli_build_asset_empty:
  assumes "strrchr d_name (CHR ''.'') = Some i"
      and "length fpath < PATH_MAX"
      and "map_of (fs s) fpath = Some (Reg m [])"
  shows "cli_build_asset w fpath d_name s =
           Ret () (s\<lparr>stdout := stdout s @ [''skipping empty asset '' @ sanitize d_name @ ''\<newline>'']\<rparr>)"
  using assms
  by (simp add: cli_build_asset_def sys_stat_Reg printf_def)


theorem cli_build_asset_empty_witness:
  "cli_build_asset demo_world ''app/assets/empty.txt'' ''empty.txt''
     (demo_state [(''app/assets/empty.txt'', Reg 100 [])]) =
   Ret () ((demo_state [(''app/assets/empty.txt'', Reg 100 [])])
     \<lparr>stdout := stdout (demo_state [(''app/assets/empty.txt'', Reg 100 [])]) @
        [''skipping empty asset '' @ sanitize ''empty.txt'' @ ''\<newline>'']\<rparr>)"
  by (rule cli_build_asset_empty [where i = 5 and m = 100])
     (simp_all add: PATH_MAX_def demo_state_def)

text \<open>
  The claim as it was stated fails for a zero-byte asset whose name has no dot: the
  check for the extension comes first and ends the build.
\<close>
theorem cli_build_asset_empty_counterexample:
  "map_of [(''app/assets/README'', Reg 100 [])] ''app/assets/README'' = Some (Reg 100 []) \<and>
   cli_build_asset demo_world ''app/assets/README'' ''README''
     (demo_state [(''app/assets/README'', Reg 100 [])])
   = Exit ((demo_state [(''app/assets/README'', Reg 100 [])])
        \<lparr>stdout := [''kore build: couldn't find ext in README\<newline>'']\<rparr>)"
  by (simp add: cli_build_asset_def cli_fatal_def cli_fatal_text_def printf_def demo_state_def)

subsection \<open>Assets whose object is up to date\<close>

text \<open>
  C8.  For a non-empty asset (\<open>st\<close> is what \<^verbatim>\<open>stat\<close> gives for it) whose object exists with
  the asset's modification time, and with the asset header open for writing on \<open>s_fd\<close>:
  \<^verbatim>\<open>cli_build_asset\<close> returns, the header has grown by exactly the three \<^verbatim>\<open>extern\<close>
  declarations of the array, its length and its modification time, and the registry has
  grown by one unit whose build flag is off.
\<close>
theorem cli_build_asset_fresh:
  assumes "strrchr d_name (CHR ''.'') = Some i"
      and "sys_stat (fs s) fpath = Inr st" and "st_size st \<noteq> 0"
      and "sys_stat (fs s) (rootdir s @ ''/.objs/'' @ sanitize d_name @ ''.o'') = Inr ost"
      and "st_mtime ost = st_mtime st"
      and "w_write_err w (s_fd s) = None" and "map_of (fs s) (s_fd s) = Some (Reg hm hdr)"
  shows "cli_build_asset w fpath d_name s =
     Ret () (s\<lparr>fs := AList.update (s_fd s) (Reg (w_now w)
        (hdr @ ''extern u_int8_t asset_'' @ take i (sanitize d_name) @ ''_'' @ drop (Suc i) (sanitize d_name) @ ''[];\<newline>'' @
             ''extern u_int32_t asset_len_'' @ take i (sanitize d_name) @ ''_'' @ drop (Suc i) (sanitize d_name) @ '';\<newline>'' @
             ''extern time_t asset_mtime_'' @ take i (sanitize d_name) @ ''_'' @ drop (Suc i) (sanitize d_name) @ '';\<newline>'')) (fs s),
        cfiles_count := cfiles_count s + 1,
        source_files := source_files s @
          [\<lparr>cf_st = st, cf_build = False, cf_cpp = False, cf_name = take i (sanitize d_name),
            cf_fpath = rootdir s @ ''/.objs/'' @ sanitize d_name @ ''.c'',
            cf_opath = rootdir s @ ''/.objs/'' @ sanitize d_name @ ''.o''\<rparr>]\<rparr>)"
  using assms
  by (simp add: cli_build_asset_def Let_def cli_file_requires_build_def bind_def
        cli_write_asset_Reg cli_add_cfile_def)

theorem cli_build_asset_fresh_witness:
  "cli_build_asset demo_world ''app/assets/a.txt'' ''a.txt''
     (demo_state [(''app/assets/a.txt'', Reg 100 ''hi''), (''app/.objs/a_txt.o'', Reg 100 ''ELF''),
        (''app/src/assets.h'', Reg 5000 ''#define __H_KORE_ASSETS_H\<newline>'')]) =
   Ret () ((demo_state [(''app/assets/a.txt'', Reg 100 ''hi''), (''app/.objs/a_txt.o'', Reg 100 ''ELF''),
        (''app/src/assets.h'', Reg 5000 ''#define __H_KORE_ASSETS_H\<newline>'')])
     \<lparr>fs := [(''app/assets/a.txt'', Reg 100 ''hi''), (''app/.objs/a_txt.o'', Reg 100 ''ELF''),
        (''app/src/assets.h'', Reg 5000 (''#define __H_KORE_ASSETS_H\<newline>'' @
           ''extern u_int8_t asset_a_txt[];\<newline>'' @
           ''extern u_int32_t asset_len_a_txt;\<newline>'' @
           ''extern time_t asset_mtime_a_txt;\<newline>''))],
      cfiles_count := 1,
      source_files := [\<lparr>cf_st = \<lparr>st_mode = S_IFREG, st_size = 2, st_mtime = 100\<rparr>,
         cf_build = False, cf_cpp = False, cf_name = ''a'',
         cf_fpath = ''app/.objs/a_txt.c'', cf_opath = ''app/.objs/a_txt.o''\<rparr>]\<rparr>)"
  using cli_build_asset_fresh [of "''a.txt''" 1
    "demo_state [(''app/assets/a.txt'', Reg 100 ''hi''), (''app/.objs/a_txt.o'', Reg 100 ''ELF''),
        (''app/src/assets.h'', Reg 5000 ''#define __H_KORE_ASSETS_H\<newline>'')]"
    "''app/assets/a.txt''" "\<lparr>st_mode = S_IFREG, st_size = 2, st_mtime = 100\<rparr>"
    "\<lparr>st_mode = S_IFREG, st_size = 3, st_mtime = 100\<rparr>" demo_world 5000
    "''#define __H_KORE_ASSETS_H\<newline>''"]
  by (simp add: demo_state_def demo_world_def sys_stat_def PATH_MAX_def sanitize_def isspace_def)

subsection \<open>The generated source of a stale asset\<close>

lemma sys_parent_objs:
  assumes "CHR ''/'' \<notin> set nm" and "map_of fsys (root @ ''/.objs'') = Some (Dir dm)"
  shows "sys_parent fsys (root @ ''/.objs/'' @ nm) = None"
proof -
  have "strrchr (''/'' @ nm) (CHR ''/'') = Some 0"
    using assms(1) by (simp add: strrchr_None [THEN iffD2])
  then have "strrchr ((root @ ''/.objs'') @ ''/'' @ nm) (CHR ''/'') = Some (length (root @ ''/.objs''))"
    by (simp only: strrchr_append option.case add_0_right)
  moreover have "take (length (root @ ''/.objs'')) ((root @ ''/.objs'') @ ''/'' @ nm) = root @ ''/.objs''"
    by simp
  moreover have "(root @ ''/.objs'') @ ''/'' @ nm = root @ ''/.objs/'' @ nm"
    by simp
  moreover have "root @ ''/.objs'' \<noteq> []" "root @ ''/.objs'' \<noteq> ''.''"
    by (simp_all add: append_eq_Cons_conv)
  ultimately show ?thesis
    using assms(2) by (simp only: sys_parent_def option.case if_False inode.case simp_thms)
qed

lemma stale_build_asset:
  assumes ext: "strrchr d_name (CHR ''.'') = Some i"
      and nsl: "CHR ''/'' \<notin> set d_name"
      and len: "length fpath < PATH_MAX"
      and fil: "map_of (fs s) fpath = Some (Reg m bytes)" and ne: "bytes \<noteq> []"
      and rdo: "w_open_err w fpath O_RDONLY = None"
      and stale: "cli_file_requires_build \<lparr>st_mode = S_IFREG, st_size = length bytes, st_mtime = m\<rparr>
                    (rootdir s @ ''/.objs/'' @ sanitize d_name @ ''.o'') s = Ret True s"
      and odir: "map_of (fs s) (rootdir s @ ''/.objs'') = Some (Dir dm)"
      and clen: "length (rootdir s @ ''/.objs/'' @ sanitize d_name @ ''.c'') < PATH_MAX"
      and cfile: "map_of (fs s) (rootdir s @ ''/.objs/'' @ sanitize d_name @ ''.c'') = None \<or>
                  (\<exists>m' d'. map_of (fs s) (rootdir s @ ''/.objs/'' @ sanitize d_name @ ''.c'') = Some (Reg m' d'))"
      and co: "w_open_err w (rootdir s @ ''/.objs/'' @ sanitize d_name @ ''.c'') O_CREAT_TRUNC_WRONLY = None"
      and cw: "w_write_err w (rootdir s @ ''/.objs/'' @ sanitize d_name @ ''.c'') = None"
      and hdr: "s_fd s \<noteq> rootdir s @ ''/.objs/'' @ sanitize d_name @ ''.c''"
               "map_of (fs s) (s_fd s) = Some (Reg hm htxt)" "w_write_err w (s_fd s) = None"
  shows "\<exists>s'. cli_build_asset w fpath d_name s = Ret () s' \<and>
           map_of (fs s') (rootdir s @ ''/.objs/'' @ sanitize d_name @ ''.c'') =
             Some (Reg (w_now w)
               (asset_source (take i (sanitize d_name)) (drop (Suc i) (sanitize d_name))
                  (concat (map (\<lambda>b. ''0x'' @ hex02 b @ '','') bytes) @ ''0x00'')
                  (dec (length bytes mod 2 ^ 32)) (dec (unat m))))"
proof -
  define cp where "cp = rootdir s @ ''/.objs/'' @ sanitize d_name @ ''.c''"
  define ob where "ob = rootdir s @ ''/.objs/'' @ sanitize d_name @ ''.o''"
  have "CHR ''/'' \<notin> set (sanitize d_name @ ''.c'')"
    using nsl by (auto simp: sanitize_def)
  from sys_parent_objs [OF this odir]
  have par: "sys_parent (fs s) cp = None"
    by (simp add: cp_def)
  note a = clen [folded cp_def] cfile [folded cp_def] cw [folded cp_def] hdr [folded cp_def]
    stale [folded ob_def] co [folded cp_def]
  have op: "sys_open w (fs s) cp O_CREAT_TRUNC_WRONLY = Inr (AList.update cp (Reg (w_now w) []) (fs s))"
    using a par by (auto simp: sys_open_def)
  have rd: "sys_open w (fs s) fpath O_RDONLY = Inr (fs s)"
    using len fil rdo by (simp add: sys_open_def)
  have mm: "sys_mmap (fs s) fpath (length bytes) = Inr bytes"
    using fil by (simp add: sys_mmap_def)
  show ?thesis
    unfolding cli_build_asset_def Let_def
    unfolding cp_def [symmetric] ob_def [symmetric]
    using ext ne a
    by (simp add: sys_stat_Reg [OF len fil] bind_def
        cli_file_open_def op rd mm printf_def cli_file_writef_Reg update_conv'
        cli_build_asset_bytes_Reg cli_write_asset_Reg cli_add_cfile_def cli_file_close_def
        asset_source_def
        split: option.split)
qed


text \<open>
  C6.  Take a non-empty asset with bytes \<open>bytes\<close>, found under an entry name without a
  slash, that the staleness check reports stale.  The object directory
  \<^verbatim>\<open><rootdir>/.objs\<close> exists, the system lets the asset be opened for reading and the
  generated file be created or truncated in the object directory, and the generated file
  and the asset header are writable.  Then \<^verbatim>\<open>cli_build_asset\<close> returns and the generated
  source is the fixed layout around an array body and a length constant such that the
  elements of the body, read as hexadecimal literals, are the values of the bytes in order
  followed by exactly one more element of value zero, and the length constant reads as the
  file size modulo \<open>2 ^ 32\<close> (the cast to \<^verbatim>\<open>u_int32_t\<close>), which does not count the last
  element.
\<close>
theorem cli_build_asset_generated:
  assumes "strrchr d_name (CHR ''.'') = Some i"
      and "CHR ''/'' \<notin> set d_name"
      and "length fpath < PATH_MAX"
      and "map_of (fs s) fpath = Some (Reg m bytes)" and "bytes \<noteq> []"
      and "w_open_err w fpath O_RDONLY = None"
      and "cli_file_requires_build \<lparr>st_mode = S_IFREG, st_size = length bytes, st_mtime = m\<rparr>
             (rootdir s @ ''/.objs/'' @ sanitize d_name @ ''.o'') s = Ret True s"
      and "map_of (fs s) (rootdir s @ ''/.objs'') = Some (Dir dm)"
      and "length (rootdir s @ ''/.objs/'' @ sanitize d_name @ ''.c'') < PATH_MAX"
      and "map_of (fs s) (rootdir s @ ''/.objs/'' @ sanitize d_name @ ''.c'') = None \<or>
           (\<exists>m' d'. map_of (fs s) (rootdir s @ ''/.objs/'' @ sanitize d_name @ ''.c'') = Some (Reg m' d'))"
      and "w_open_err w (rootdir s @ ''/.objs/'' @ sanitize d_name @ ''.c'') O_CREAT_TRUNC_WRONLY = None"
      and "w_write_err w (rootdir s @ ''/.objs/'' @ sanitize d_name @ ''.c'') = None"
      and "s_fd s \<noteq> rootdir s @ ''/.objs/'' @ sanitize d_name @ ''.c''"
      and "map_of (fs s) (s_fd s) = Some (Reg hm htxt)" and "w_write_err w (s_fd s) = None"
  shows "\<exists>s' body len.
           cli_build_asset w fpath d_name s = Ret () s' \<and>
           map_of (fs s') (rootdir s @ ''/.objs/'' @ sanitize d_name @ ''.c'') =
             Some (Reg (w_now w)
               (asset_source (take i (sanitize d_name)) (drop (Suc i) (sanitize d_name))
                  body len (dec (unat m)))) \<and>
           map c_hex_literal (split_on (CHR '','') body) =
             map (\<lambda>b. Some (of_char b)) bytes @ [Some 0] \<and>
           c_dec_literal len = Some (length bytes mod 2 ^ 32)"
proof -
  from stale_build_asset [OF assms] obtain s' where
    "cli_build_asset w fpath d_name s = Ret () s'"
    "map_of (fs s') (rootdir s @ ''/.objs/'' @ sanitize d_name @ ''.c'') =
       Some (Reg (w_now w)
         (asset_source (take i (sanitize d_name)) (drop (Suc i) (sanitize d_name))
            (concat (map (\<lambda>b. ''0x'' @ hex02 b @ '','') bytes) @ ''0x00'')
            (dec (length bytes mod 2 ^ 32)) (dec (unat m))))"
    by blast
  then show ?thesis
    using elems_values [of bytes] c_dec_literal_dec [of "length bytes mod 2 ^ 32"] by blast
qed

text \<open>
  An application tree with its object directory and one asset of two bytes; the asset
  header is open and still empty.
\<close>
theorem cli_build_asset_generated_witness:
  "\<exists>s' body len.
     cli_build_asset demo_world ''app/assets/a.txt'' ''a.txt'' (demo_state asset_fs) = Ret () s' \<and>
     map_of (fs s') ''app/.objs/a_txt.c'' =
       Some (Reg 5000 (asset_source ''a'' ''txt'' body len (dec 100))) \<and>
     map c_hex_literal (split_on (CHR '','') body) =
       map (\<lambda>b. Some (of_char b)) ''hi'' @ [Some 0] \<and>
     c_dec_literal len = Some (length ''hi'' mod 2 ^ 32)"
  using cli_build_asset_generated [of "''a.txt''" 1 "''app/assets/a.txt''"
    "demo_state asset_fs" 100 "''hi''" demo_world 1 5000 "[]"]
  by (simp add: demo_state_def demo_world_def asset_fs_def sys_stat_def PATH_MAX_def sanitize_def
        isspace_def cli_file_requires_build_def)

subsection \<open>The staleness check\<close>

lemma cli_fatal_Exit: "\<exists>s'. (cli_fatal msg s :: 'a outcome) = Exit s'"
  by (simp add: cli_fatal_def)

text \<open>
  C1.  For a source modification time (in \<open>fst0\<close>) and an object path: when \<^verbatim>\<open>stat\<close> on the
  object path fails with \<open>ENOENT\<close> the check returns true; when it fails with any other
  error the process exits; when it succeeds the check returns true exactly when the two
  modification times differ as 64-bit values, whichever of them is the later one.  The
  check never changes the state when it returns.
\<close>
theorem cli_file_requires_build_cases:
  "(sys_stat (fs s) opath = Inl ENOENT \<longrightarrow> cli_file_requires_build fst0 opath s = Ret True s) \<and>
   (\<forall>e. sys_stat (fs s) opath = Inl e \<and> e \<noteq> ENOENT \<longrightarrow>
        (\<exists>s'. cli_file_requires_build fst0 opath s = Exit s')) \<and>
   (\<forall>ost. sys_stat (fs s) opath = Inr ost \<longrightarrow>
        cli_file_requires_build fst0 opath s = Ret (st_mtime fst0 \<noteq> st_mtime ost) s)"
  using cli_fatal_Exit [where 'a = bool] by (auto simp: cli_file_requires_build_def)

theorem cli_file_requires_build_cases_witness:
  "cli_file_requires_build \<lparr>st_mode = S_IFREG, st_size = 3, st_mtime = 100\<rparr> ''app/.objs/a.c.o''
     \<lparr>fs = [], stdout = [], stderr = [], procs = [], command = Some ''build'', s_fd = [],
      appl = ''app'', rootdir = ''app'', compiler = ''gcc'', source_files = [], cfiles_count = 0\<rparr>
   = Ret True
     \<lparr>fs = [], stdout = [], stderr = [], procs = [], command = Some ''build'', s_fd = [],
      appl = ''app'', rootdir = ''app'', compiler = ''gcc'', source_files = [], cfiles_count = 0\<rparr>
   \<and> (\<exists>s'. cli_file_requires_build \<lparr>st_mode = S_IFREG, st_size = 3, st_mtime = 100\<rparr> ''app/.objs/a.c.o''
     \<lparr>fs = [(''app/.objs/a.c.o'', Denied EACCES)], stdout = [], stderr = [], procs = [],
      command = Some ''build'', s_fd = [],
      appl = ''app'', rootdir = ''app'', compiler = ''gcc'', source_files = [], cfiles_count = 0\<rparr>
   = Exit s')
   \<and> cli_file_requires_build \<lparr>st_mode = S_IFREG, st_size = 3, st_mtime = 100\<rparr> ''app/.objs/a.c.o''
     \<lparr>fs = [(''app/.objs/a.c.o'', Reg 200 [])], stdout = [], stderr = [], procs = [],
      command = Some ''build'', s_fd = [],
      appl = ''app'', rootdir = ''app'', compiler = ''gcc'', source_files = [], cfiles_count = 0\<rparr>
   = Ret True
     \<lparr>fs = [(''app/.objs/a.c.o'', Reg 200 [])], stdout = [], stderr = [], procs = [],
      command = Some ''build'', s_fd = [],
      appl = ''app'', rootdir = ''app'', compiler = ''gcc'', source_files = [], cfiles_count = 0\<rparr>
   \<and> cli_file_requires_build \<lparr>st_mode = S_IFREG, st_size = 3, st_mtime = 100\<rparr> ''app/.objs/a.c.o''
     \<lparr>fs = [(''app/.objs/a.c.o'', Reg 100 [])], stdout = [], stderr = [], procs = [],
      command = Some ''build'', s_fd = [],
      appl = ''app'', rootdir = ''app'', compiler = ''gcc'', source_files = [], cfiles_count = 0\<rparr>
   = Ret False
     \<lparr>fs = [(''app/.objs/a.c.o'', Reg 100 [])], stdout = [], stderr = [], procs = [],
      command = Some ''build'', s_fd = [],
      appl = ''app'', rootdir = ''app'', compiler = ''gcc'', source_files = [], cfiles_count = 0\<rparr>"
  using
    cli_file_requires_build_cases [of
      "\<lparr>fs = [], stdout = [], stderr = [], procs = [], command = Some ''build'', s_fd = [],
        appl = ''app'', rootdir = ''app'', compiler = ''gcc'', source_files = [], cfiles_count = 0\<rparr>"
      "''app/.objs/a.c.o''" "\<lparr>st_mode = S_IFREG, st_size = 3, st_mtime = 100\<rparr>"]
    cli_file_requires_build_cases [of
      "\<lparr>fs = [(''app/.objs/a.c.o'', Denied EACCES)], stdout = [], stderr = [], procs = [],
        command = Some ''build'', s_fd = [],
        appl = ''app'', rootdir = ''app'', compiler = ''gcc'', source_files = [], cfiles_count = 0\<rparr>"
      "''app/.objs/a.c.o''" "\<lparr>st_mode = S_IFREG, st_size = 3, st_mtime = 100\<rparr>"]
    cli_file_requires_build_cases [of
      "\<lparr>fs = [(''app/.objs/a.c.o'', Reg 200 [])], stdout = [], stderr = [], procs = [],
        command = Some ''build'', s_fd = [],
        appl = ''app'', rootdir = ''app'', compiler = ''gcc'', source_files = [], cfiles_count = 0\<rparr>"
      "''app/.objs/a.c.o''" "\<lparr>st_mode = S_IFREG, st_size = 3, st_mtime = 100\<rparr>"]
    cli_file_requires_build_cases [of
      "\<lparr>fs = [(''app/.objs/a.c.o'', Reg 100 [])], stdout = [], stderr = [], procs = [],
        command = Some ''build'', s_fd = [],
        appl = ''app'', rootdir = ''app'', compiler = ''gcc'', source_files = [], cfiles_count = 0\<rparr>"
      "''app/.objs/a.c.o''" "\<lparr>st_mode = S_IFREG, st_size = 3, st_mtime = 100\<rparr>"]
  by (simp add: sys_stat_def PATH_MAX_def)

subsection \<open>The status word of a child\<close>

lemma and_push_bit_one: "push_bit (Suc k) (x::32 word) AND push_bit k 1 = 0"
  by (rule bit_word_eqI) (auto simp: bit_simps bit_0 simp del: push_bit_of_1)

lemma and_push_bit_mask: "push_bit (k + j) (x::32 word) AND mask k = 0"
  by (rule bit_word_eqI) (auto simp: bit_simps)

lemma drop_push_and:
  "k + j \<le> 32 \<Longrightarrow> drop_bit k (push_bit k (take_bit j (x::32 word)) AND push_bit k (mask j)) = take_bit j x"
  by (rule bit_word_eqI) (auto simp: bit_simps)

lemma or_and_mask: "(take_bit k (x::32 word) OR push_bit k y) AND mask k = take_bit k x"
  by (rule bit_word_eqI) (auto simp: bit_simps)

lemma m7: "(0x7f::32 word) = mask 7" by (simp add: mask_eq_exp_minus_1)
lemma hi: "(0xff00::32 word) = push_bit 8 (mask 8)" by (simp add: mask_eq_exp_minus_1 push_bit_eq_mult)
lemma c80: "(0x80::32 word) = push_bit 7 1" by simp
lemma of_nat_mod_256: "(of_nat (c mod 256) :: 32 word) = take_bit 8 (of_nat c)"
proof -
  have "c mod 256 = take_bit 8 c" by (simp add: take_bit_eq_mod)
  then show ?thesis by (simp only: of_nat_take_bit)
qed
lemma of_nat_mod_128: "(of_nat (c mod 128) :: 32 word) = take_bit 7 (of_nat c)"
proof -
  have "c mod 128 = take_bit 7 c" by (simp add: take_bit_eq_mod)
  then show ?thesis by (simp only: of_nat_take_bit)
qed

lemma exit_termsig: "WTERMSIG (wait_status (Exited c)) = 0"
  unfolding WTERMSIG_def wait_status_def child_end.case m7
  using and_push_bit_mask [of 7 1] by simp

lemma exit_core: "WCOREDUMP (wait_status (Exited c)) = 0"
  unfolding WCOREDUMP_def wait_status_def child_end.case
  using and_push_bit_one [of 7 "of_nat (c mod 256)"] by simp

lemma exit_status: "WEXITSTATUS (wait_status (Exited c)) = of_nat (c mod 256)"
  unfolding WEXITSTATUS_def wait_status_def child_end.case hi of_nat_mod_256
  by (rule drop_push_and) simp

lemma sig_termsig: "WTERMSIG (wait_status (Signaled sig core)) = of_nat (sig mod 128)"
proof -
  have "(if core then 0x80 else 0 :: 32 word) = push_bit 7 (if core then 1 else 0)"
    by simp
  then show ?thesis
    unfolding WTERMSIG_def wait_status_def child_end.case m7 of_nat_mod_128
    by (simp only: or_and_mask)
qed

lemma of_nat_32_eq_0: "n < 2 ^ 32 \<Longrightarrow> (of_nat n :: 32 word) = 0 \<longleftrightarrow> n = 0"
  by (simp add: word_of_nat_eq_0_iff dvd_imp_le) (use dvd_imp_le in fastforce)

subsection \<open>The supervisor and the compile loop\<close>

lemma spawned_append [simp]: "spawned (xs @ ys) = spawned xs @ spawned ys"
  by (induction xs rule: spawned.induct) auto

lemma child_ok_iff:
  assumes "case ce of Exited code \<Rightarrow> code < 256 | Signaled sig core \<Rightarrow> 0 < sig \<and> sig < 128"
  shows "WEXITSTATUS (wait_status ce) \<noteq> 0 \<or> WTERMSIG (wait_status ce) \<noteq> 0 \<or>
         WCOREDUMP (wait_status ce) \<noteq> 0 \<longleftrightarrow> ce \<noteq> Exited 0"
proof (cases ce)
  case (Exited c)
  with assms have "c < 2 ^ 32" by simp
  then have "(of_nat c :: 32 word) = 0 \<longleftrightarrow> c = 0" by (rule of_nat_32_eq_0)
  with Exited assms show ?thesis
    by (simp add: exit_status exit_termsig exit_core)
next
  case (Signaled sig core)
  with assms have "sig < 2 ^ 32" "sig \<noteq> 0" by simp_all
  then have "(of_nat sig :: 32 word) \<noteq> 0" by (simp add: of_nat_32_eq_0)
  with Signaled assms show ?thesis
    by (simp add: sig_termsig)
qed

lemma cli_spawn_proc_run:
  assumes "w_fork w (length (procs s)) = Inr pid"
      and "w_waitpid w pid = None"
      and "w_execvp w (compiler s) (driver_argv w d s) (fs s) = Inr (ce, fsys)"
      and "case ce of Exited code \<Rightarrow> code < 256 | Signaled sig core \<Rightarrow> 0 < sig \<and> sig < 128"
  shows "cli_spawn_proc w d s =
     (if ce = Exited 0 then
        Ret () (s\<lparr>fs := fsys, procs := procs s @ [Forked d pid (driver_argv w d s), Waited pid]\<rparr>)
      else
        Exit (s\<lparr>fs := fsys, procs := procs s @ [Forked d pid (driver_argv w d s), Waited pid],
                stdout := stdout s @ [cli_fatal_text ''subprocess trouble, check output'' s]\<rparr>))"
  using assms(1-3) child_ok_iff [OF assms(4)]
  by (simp add: cli_spawn_proc_def Let_def cli_fatal_def printf_def cli_fatal_text_def)

lemma cli_spawn_proc_procs:
  "\<exists>evs. procs (state_of (cli_spawn_proc w d s)) = procs s @ evs \<and>
        (spawned evs = [] \<or> spawned evs = [d]) \<and>
        (returned (cli_spawn_proc w d s) \<longrightarrow> spawned evs = [d])"
  by (auto simp: cli_spawn_proc_def Let_def cli_fatal_def printf_def state_of_def returned_def
      split: sum.splits option.splits prod.splits)



lemma cli_build_compile_abort:
  "cf_build cf \<Longrightarrow>
   cli_spawn_proc w (Compile cf) (printf (''compiling '' @ cf_name cf @ ''\<newline>'') s) = Exit s' \<Longrightarrow>
   cli_build_compile w (cf # cfs) rr s = Exit s'"
  by (simp add: bind_def)

lemma utimes_state_procs:
  "procs (case sys_utimes (fs s1) p t of Inl e \<Rightarrow> printf (msg e) s1 | Inr fsys \<Rightarrow> s1\<lparr>fs := fsys\<rparr>) = procs s1"
  by (simp add: printf_def split: sum.split)

lemma cli_build_compile_spawned:
  "\<exists>evs. procs (state_of (cli_build_compile w cfs rr s)) = procs s @ evs \<and>
        prefix (spawned evs) (map Compile (filter cf_build cfs)) \<and>
        (returned (cli_build_compile w cfs rr s) \<longrightarrow>
           spawned evs = map Compile (filter cf_build cfs))"
proof (induction cfs arbitrary: rr s)
  case Nil
  show ?case by simp
next
  case (Cons cf cfs)
  show ?case
  proof (cases "cf_build cf")
    case False
    with Cons.IH [of rr s] show ?thesis by simp
  next
    case True
    let ?s0 = "printf (''compiling '' @ cf_name cf @ ''\<newline>'') s"
    have p0: "procs ?s0 = procs s" by (simp add: printf_def)
    from cli_spawn_proc_procs [of w "Compile cf" ?s0] obtain ds where
      ds: "procs (state_of (cli_spawn_proc w (Compile cf) ?s0)) = procs s @ ds"
        "spawned ds = [] \<or> spawned ds = [Compile cf]"
        "returned (cli_spawn_proc w (Compile cf) ?s0) \<longrightarrow> spawned ds = [Compile cf]"
      unfolding p0 by blast
    show ?thesis
    proof (cases "cli_spawn_proc w (Compile cf) ?s0")
      case (Exit s')
      with ds True show ?thesis
        by (auto simp: bind_def)
    next
      case (Ret u s1)
      let ?s2 = "case sys_utimes (fs s1) (cf_opath cf) (st_mtime (cf_st cf)) of
                   Inl e \<Rightarrow> printf (''utime('' @ cf_opath cf @ ''): '' @ errno_s e @ ''\<newline>'') s1
                 | Inr fsys \<Rightarrow> s1\<lparr>fs := fsys\<rparr>"
      have p2: "procs ?s2 = procs s1" by (rule utimes_state_procs)
      from Ret ds have s1: "procs s1 = procs s @ ds" "spawned ds = [Compile cf]" by simp_all
      from Cons.IH [of "rr + 1" ?s2] obtain es where
        es: "procs (state_of (cli_build_compile w cfs (rr + 1) ?s2)) = procs ?s2 @ es"
          "prefix (spawned es) (map Compile (filter cf_build cfs))"
          "returned (cli_build_compile w cfs (rr + 1) ?s2) \<longrightarrow>
             spawned es = map Compile (filter cf_build cfs)"
        by blast
      have eq: "cli_build_compile w (cf # cfs) rr s = cli_build_compile w cfs (rr + 1) ?s2"
        using True Ret by (simp add: bind_def Let_def)
      have "procs (state_of (cli_build_compile w (cf # cfs) rr s)) = procs s @ (ds @ es)"
        unfolding eq using es(1) s1(1) p2 by simp
      moreover have "prefix (spawned (ds @ es)) (map Compile (filter cf_build (cf # cfs)))"
        using es(2) s1(2) True by simp
      moreover have "returned (cli_build_compile w (cf # cfs) rr s) \<longrightarrow>
          spawned (ds @ es) = map Compile (filter cf_build (cf # cfs))"
        unfolding eq using es(3) s1(2) True by simp
      ultimately show ?thesis by blast
    qed
  qed
qed




subsection \<open>What the phases of the build leave alone\<close>

lemma io_blind_simps:
  assumes "io_blind f"
  shows "f (s\<lparr>fs := x\<rparr>) = f s" "f (s\<lparr>stdout := y\<rparr>) = f s" "f (s\<lparr>stderr := z\<rparr>) = f s"
    "f (printf str s) = f s" "f (fprintf_stderr str s) = f s"
  using assms by (simp_all add: io_blind_def printf_def fprintf_stderr_def)

lemma reg_blind_simps:
  assumes "reg_blind f"
  shows "f (s\<lparr>source_files := x\<rparr>) = f s" "f (s\<lparr>cfiles_count := y\<rparr>) = f s"
  using assms by (simp_all add: reg_blind_def)

lemma io_blind_fields:
  "io_blind procs" "io_blind rootdir" "io_blind appl" "io_blind compiler" "io_blind command"
  "io_blind s_fd" "io_blind source_files" "io_blind cfiles_count"
  by (simp_all add: io_blind_def)

lemma reg_blind_fields:
  "reg_blind procs" "reg_blind rootdir" "reg_blind appl" "reg_blind compiler" "reg_blind command"
  "reg_blind s_fd" "reg_blind fs" "reg_blind stdout" "reg_blind stderr"
  by (simp_all add: reg_blind_def)

lemma keepsD: "keeps f m \<Longrightarrow> f (state_of (m s)) = f s"
  by (simp add: keeps_def)

lemma keeps_Ret: "keeps f m \<Longrightarrow> m s = Ret x s' \<Longrightarrow> f s' = f s"
  by (metis keepsD state_of_simps(2))

lemma keeps_Exit: "keeps f m \<Longrightarrow> m s = Exit s' \<Longrightarrow> f s' = f s"
  by (metis keepsD state_of_simps(1))

lemma keeps_bind: "keeps f m \<Longrightarrow> (\<And>x. keeps f (k x)) \<Longrightarrow> keeps f (bind m k)"
  by (auto simp: keeps_def bind_def split: outcome.splits) (metis state_of_simps)+

lemma keepsI: "(\<And>s. f (state_of (m s)) = f s) \<Longrightarrow> keeps f m"
  by (simp add: keeps_def)

lemma keeps_bind_state:
  "keeps f m \<Longrightarrow> (\<And>x s. f (state_of (k x s)) = f s) \<Longrightarrow> f (state_of (bind m k s)) = f s"
  by (rule keepsD [OF keeps_bind]) (simp_all add: keeps_def)

lemma keeps_fatal: "io_blind f \<Longrightarrow> keeps f (cli_fatal msg)"
  by (simp add: keeps_def cli_fatal_def io_blind_simps)

lemma keeps_Ret_const: "keeps f (Ret x)"
  by (simp add: keeps_def)

lemma keeps_mkdir: "io_blind f \<Longrightarrow> keeps f (cli_mkdir w p)"
  by (simp add: keeps_def cli_mkdir_def cli_fatal_def io_blind_simps split: sum.split)

lemma keeps_open: "io_blind f \<Longrightarrow> keeps f (cli_file_open w p fl)"
  by (simp add: keeps_def cli_file_open_def cli_fatal_def io_blind_simps split: sum.split)

lemma keeps_close: "io_blind f \<Longrightarrow> keeps f (cli_file_close w fd)"
  by (simp add: keeps_def cli_file_close_def io_blind_simps split: option.split)

lemma keeps_write: "io_blind f \<Longrightarrow> keeps f (cli_file_write w fd buf)"
  by (simp add: keeps_def cli_file_write_def cli_fatal_def io_blind_simps split: sum.split)

lemma keeps_writef: "io_blind f \<Longrightarrow> keeps f (cli_file_writef w fd buf)"
  using keeps_write [of f w fd buf] by (simp add: keeps_def cli_file_writef_def)

lemma keeps_requires_build: "io_blind f \<Longrightarrow> keeps f (cli_file_requires_build st p)"
  by (simp add: keeps_def cli_file_requires_build_def cli_fatal_def io_blind_simps split: sum.split)

lemma keeps_add_cfile: "reg_blind f \<Longrightarrow> keeps f (cli_add_cfile n fp op st b c)"
  by (simp add: keeps_def cli_add_cfile_def reg_blind_simps)

lemma keeps_write_asset: "io_blind f \<Longrightarrow> keeps f (cli_write_asset w n e)"
proof -
  assume io: "io_blind f"
  have "keeps f (\<lambda>s. cli_write_asset w n e s)"
    unfolding keeps_def
  proof
    fix s :: state
    have "keeps f (bind (cli_file_writef w (s_fd s) (''extern u_int8_t asset_'' @ n @ ''_'' @ e @ ''[];\<newline>'')) (\<lambda>_.
      bind (cli_file_writef w (s_fd s) (''extern u_int32_t asset_len_'' @ n @ ''_'' @ e @ '';\<newline>'')) (\<lambda>_.
      cli_file_writef w (s_fd s) (''extern time_t asset_mtime_'' @ n @ ''_'' @ e @ '';\<newline>''))))"
      by (intro keeps_bind keeps_writef io)
    then show "f (state_of (cli_write_asset w n e s)) = f s"
      unfolding cli_write_asset_def by (rule keepsD)
  qed
  then show ?thesis .
qed

lemma keeps_asset_bytes: "io_blind f \<Longrightarrow> keeps f (cli_build_asset_bytes w out bs)"
proof (induction bs)
  case Nil
  show ?case by (simp add: keeps_def)
next
  case (Cons b bs)
  have "keeps f (bind (cli_file_writef w out (''0x'' @ hex02 b @ '','')) (\<lambda>_. cli_build_asset_bytes w out bs))"
    by (intro keeps_bind keeps_writef Cons)
  then show ?case by (simp add: keeps_def)
qed

lemma keeps_build_asset:
  assumes io: "io_blind f" and rg: "reg_blind f"
  shows "keeps f (cli_build_asset w fpath d_name)"
proof (rule keepsI)
  fix s :: state
  note k = keeps_bind keeps_writef [OF io] keeps_open [OF io] keeps_close [OF io]
    keeps_write_asset [OF io] keeps_add_cfile [OF rg] keeps_asset_bytes [OF io]
    keeps_requires_build [OF io] keeps_fatal [OF io]
  show "f (state_of (cli_build_asset w fpath d_name s)) = f s"
    unfolding cli_build_asset_def Let_def
    apply (simp split: option.split sum.split add: keepsD [OF keeps_fatal [OF io]] io_blind_simps [OF io])
    apply (intro allI impI conjI)
    apply (rule keeps_bind_state)
     apply (rule k)
    apply (simp split: sum.split add: keepsD [OF keeps_fatal [OF io]])
    apply (intro allI impI conjI)
     apply (rule keepsD)
     apply (intro k)
    apply (rule keeps_bind_state)
     apply (rule k)
    apply (simp split: sum.split add: keepsD [OF keeps_fatal [OF io]])
    apply (intro allI impI conjI)
    apply (rule keeps_bind_state)
     apply (rule k)
    apply (rule trans)
     apply (rule keepsD)
     apply (intro k)
    apply (simp add: io_blind_simps [OF io])
    done
qed

lemma keeps_register_cfile:
  assumes io: "io_blind f" and rg: "reg_blind f"
  shows "keeps f (cli_register_cfile w fpath d_name)"
proof (rule keepsI)
  fix s :: state
  note k = keeps_bind keeps_add_cfile [OF rg] keeps_requires_build [OF io] keeps_fatal [OF io]
  show "f (state_of (cli_register_cfile w fpath d_name s)) = f s"
    unfolding cli_register_cfile_def Let_def
    apply (simp split: option.split sum.split add: keepsD [OF keeps_fatal [OF io]])
    apply safe
     apply (rule keeps_bind_state, rule k, simp add: keepsD [OF keeps_add_cfile [OF rg]])+
    done
qed

lemma keeps_find_files:
  assumes io: "io_blind f"
  shows "(\<And>fp d. keeps f (cb fp d)) \<Longrightarrow> f (state_of (cli_find_files p cb s)) = f s"
    and "(\<And>fp d. keeps f (cb fp d)) \<Longrightarrow> f (state_of (find_entries p cb ents s)) = f s"
proof (induction p cb s and p cb ents s rule: cli_find_files_find_entries.induct)
  case (1 fpath cb s)
  then show ?case
    by (simp add: keepsD [OF keeps_fatal [OF io]] split: sum.split)
next
  case (2 dpath cb s)
  show ?case by simp
next
  case (3 dpath cb d_name rest s)
  show ?case
  proof (cases "d_name = ''.'' \<or> d_name = ''..''")
    case True
    with 3 show ?thesis by simp
  next
    case False
    note nd = this
    show ?thesis
    proof (cases "sys_stat (fs s) (dpath @ ''/'' @ d_name)")
      case (Inl e)
      with nd "3.IH"(2) [OF nd Inl "3.prems"] show ?thesis
        by (simp add: io_blind_simps [OF io])
    next
      case (Inr st)
      show ?thesis
      proof (cases "st_mode st")
        case S_IFREG
        have c: "f (state_of (cb (dpath @ ''/'' @ d_name) d_name s)) = f s"
          by (rule keepsD [OF "3.prems"])
        show ?thesis
        proof (cases "cb (dpath @ ''/'' @ d_name) d_name s")
          case (Exit s')
          with nd Inr S_IFREG c show ?thesis by simp
        next
          case (Ret u s')
          with nd Inr S_IFREG c "3.IH"(5) [OF nd Inr _ _ Ret "3.prems"] show ?thesis by simp
        qed
      next
        case S_IFDIR
        have c: "f (state_of (cli_find_files (dpath @ ''/'' @ d_name) cb s)) = f s"
          using "3.IH"(3) [OF nd Inr S_IFDIR "3.prems"] .
        show ?thesis
        proof (cases "cli_find_files (dpath @ ''/'' @ d_name) cb s")
          case (Exit s')
          with nd Inr S_IFDIR c show ?thesis by simp
        next
          case (Ret u s')
          with nd Inr S_IFDIR c "3.IH"(4) [OF nd Inr S_IFDIR Ret "3.prems"] show ?thesis by simp
        qed
      next
        case S_IFOTHER
        with nd Inr "3.IH"(6) [OF nd Inr _ _ "3.prems"] show ?thesis
          by (simp add: io_blind_simps [OF io])
      qed
    qed
  qed
qed

lemma ctx_blind_simps:
  assumes "ctx_blind f"
  shows "f (s\<lparr>procs := x\<rparr>) = f s"
  using assms by (simp_all add: ctx_blind_def)

lemma fd_blind_simps:
  assumes "fd_blind f"
  shows "f (s\<lparr>s_fd := y\<rparr>) = f s"
  using assms by (simp_all add: fd_blind_def)

lemma ctx_blind_fields:
  "ctx_blind rootdir" "ctx_blind appl" "ctx_blind compiler" "ctx_blind command"
  "ctx_blind source_files" "ctx_blind cfiles_count" "ctx_blind s_fd"
  by (simp_all add: ctx_blind_def)

lemma fd_blind_fields:
  "fd_blind procs" "fd_blind rootdir" "fd_blind appl" "fd_blind compiler" "fd_blind command"
  "fd_blind source_files" "fd_blind cfiles_count" "fd_blind fs"
  by (simp_all add: fd_blind_def)

lemma keeps_unlink_void: "io_blind f \<Longrightarrow> f (unlink_void p s) = f s"
  by (simp add: unlink_void_def io_blind_simps split: sum.split)

lemma keeps_build_assets:
  assumes io: "io_blind f" and rg: "reg_blind f" and cx: "fd_blind f"
  shows "keeps f (cli_build_assets w)"
proof (rule keepsI)
  fix s :: state
  let ?s1 = "unlink_void (rootdir s @ ''/src/assets.h'') s"
  have w: "keeps f (cli_find_files p (cli_build_asset w))" for p
    by (rule keepsI) (rule keeps_find_files(1) [OF io keeps_build_asset [OF io rg]])
  note k = keeps_bind keeps_writef [OF io] keeps_open [OF io] keeps_close [OF io] w
  have "f (state_of (cli_build_assets w s)) = f ?s1"
    unfolding cli_build_assets_def Let_def
    apply (simp split: if_split)
    apply (intro allI impI conjI)
    apply (rule keeps_bind_state)
     apply (rule k)
    apply (rule trans)
     apply (rule keepsD)
     apply (intro k)
    apply (simp add: fd_blind_simps [OF cx])
    done
  then show "f (state_of (cli_build_assets w s)) = f s"
    by (simp add: keeps_unlink_void [OF io])
qed

lemma keeps_build_sources:
  assumes io: "io_blind f" and rg: "reg_blind f"
  shows "keeps f (cli_build_sources w)"
  unfolding cli_build_sources_def
  by (rule keepsI) (rule keeps_find_files(1) [OF io keeps_register_cfile [OF io rg]])

lemma keeps_build_init: "keeps procs (cli_build_init w argv)"
  apply (rule keepsI)
  apply (simp add: cli_build_init_def bind_def Let_def cli_fatal_def printf_def cli_mkdir_def
      split: list.split sum.split option.split)
  done

lemma keeps_spawn:
  assumes io: "io_blind f" and cx: "ctx_blind f"
  shows "keeps f (cli_spawn_proc w d)"
  apply (rule keepsI)
  apply (simp add: cli_spawn_proc_def Let_def cli_fatal_def io_blind_simps [OF io]
      ctx_blind_simps [OF cx] split: sum.split option.split prod.split)
  done

lemma keeps_build_compile:
  assumes io: "io_blind f" and cx: "ctx_blind f"
  shows "f (state_of (cli_build_compile w cfs rr s)) = f s"
proof (induction cfs arbitrary: rr s)
  case Nil
  show ?case by simp
next
  case (Cons cf cfs)
  show ?case
  proof (cases "cf_build cf")
    case False
    with Cons show ?thesis by simp
  next
    case True
    let ?s0 = "printf (''compiling '' @ cf_name cf @ ''\<newline>'') s"
    have a: "f (state_of (cli_spawn_proc w (Compile cf) ?s0)) = f s"
      by (simp add: keepsD [OF keeps_spawn [OF io cx]] io_blind_simps [OF io])
    show ?thesis
    proof (cases "cli_spawn_proc w (Compile cf) ?s0")
      case (Exit s')
      with True a show ?thesis by (simp add: bind_def)
    next
      case (Ret u s1)
      with True a show ?thesis
        by (simp add: bind_def Let_def Cons.IH io_blind_simps [OF io] split: sum.split)
    qed
  qed
qed

lemma cli_build_compile_count:
  "cli_build_compile w cfs rr s = Ret rr' s' \<Longrightarrow> rr' = rr + of_nat (length (filter cf_build cfs))"
proof (induction cfs arbitrary: rr s)
  case Nil
  then show ?case by simp
next
  case (Cons cf cfs)
  from Cons.prems show ?case
    by (auto simp: bind_def Let_def ac_simps split: if_splits outcome.splits dest!: Cons.IH)
qed

lemma keeps_file_create: "io_blind f \<Longrightarrow> keeps f (cli_file_create w n d)"
  apply (rule keepsI)
  apply (simp add: cli_file_create_def Let_def)
  apply (rule keeps_bind_state, rule keeps_open, assumption)
  apply (rule keeps_bind_state, rule keeps_write, assumption)
  apply (rule keeps_bind_state, rule keeps_close, assumption)
  apply (simp add: io_blind_simps)
  done

lemma keeps_generate_certs: "io_blind f \<Longrightarrow> keeps f (cli_generate_certs w)"
  apply (rule keepsI)
  apply (simp add: cli_generate_certs_def)
  apply (intro impI)
  apply (rule keeps_bind_state, rule keeps_file_create, assumption)
  apply (simp add: cli_fatal_def io_blind_simps split: sum.split prod.split)
  done


lemma cli_link_library_cong:
  "compiler s = compiler t \<Longrightarrow> source_files s = source_files t \<Longrightarrow> rootdir s = rootdir t \<Longrightarrow>
   appl s = appl t \<Longrightarrow> cli_link_library w s = cli_link_library w t"
  by (simp add: cli_link_library_def)

lemma cli_spawn_proc_Ret:
  "cli_spawn_proc w d s = Ret () s' \<Longrightarrow>
   \<exists>pid. procs s' = procs s @ [Forked d pid (driver_argv w d s), Waited pid] \<and> stdout s' = stdout s"
  by (auto simp: cli_spawn_proc_def Let_def cli_fatal_def printf_def exit_status
      split: sum.splits option.splits prod.splits if_splits)

lemma keeps_cert_phase:
  assumes io: "io_blind f"
  shows "keeps f (\<lambda>s2.
        if \<not> cli_dir_exists (rootdir s2 @ ''/cert'') s2 then
          bind (cli_mkdir w (rootdir s2 @ ''/cert'')) (\<lambda>_. cli_generate_certs w) s2
        else Ret () s2)"
  apply (rule keepsI)
  apply (simp split: if_split)
  apply (intro impI)
  apply (rule keeps_bind_state, rule keeps_mkdir, rule io)
  apply (rule keepsD [OF keeps_generate_certs [OF io]])
  done

lemma cli_build_finish_Ret:
  assumes "cli_build_finish w rr s = Ret () s'"
  shows "source_files s' = source_files s \<and> rootdir s' = rootdir s \<and> appl s' = appl s \<and>
         compiler s' = compiler s \<and>
         (rr = 0 \<longrightarrow> procs s' = procs s \<and> stdout s' \<noteq> [] \<and> last (stdout s') = ''nothing to be done\<newline>'') \<and>
         (rr \<noteq> 0 \<longrightarrow> (\<exists>pid. procs s' = procs s @ [Forked Link pid (cli_link_library w s'), Waited pid]) \<and>
                     stdout s' \<noteq> [] \<and> last (stdout s') = appl s @ '' built successfully!\<newline>'')"
proof -
  let ?s1 = "unlink_void (rootdir s @ ''/src/assets.h'') s"
  let ?cert = "\<lambda>s2. if \<not> cli_dir_exists (rootdir s2 @ ''/cert'') s2 then
          bind (cli_mkdir w (rootdir s2 @ ''/cert'')) (\<lambda>_. cli_generate_certs w) s2
        else Ret () s2"
  from assms obtain u s3 where c: "?cert ?s1 = Ret u s3"
    and f: "(if rr \<noteq> 0 then
          bind (cli_spawn_proc w Link) (\<lambda>_ s4.
            Ret () (printf (appl s4 @ '' built successfully!\<newline>'') s4)) s3
        else Ret () (printf ''nothing to be done\<newline>'' s3)) = Ret () s'"
    unfolding cli_build_finish_def Let_def by (elim bind_RetE) auto
  have k: "g s3 = g s" if "io_blind g" for g :: "state \<Rightarrow> 'x"
    using keeps_Ret [OF keeps_cert_phase [OF that] c] by (simp add: keeps_unlink_void [OF that])
  note k3 = k [OF io_blind_fields(1)] k [OF io_blind_fields(2)] k [OF io_blind_fields(3)]
    k [OF io_blind_fields(4)] k [OF io_blind_fields(7)]
  show ?thesis
  proof (cases "rr = 0")
    case True
    with f have "s' = printf ''nothing to be done\<newline>'' s3" by simp
    with True k3 show ?thesis by (simp add: printf_def)
  next
    case False
    with f obtain s4 where sp: "cli_spawn_proc w Link s3 = Ret () s4"
      and e: "s' = printf (appl s4 @ '' built successfully!\<newline>'') s4"
      by (auto elim!: bind_RetE)
    from cli_spawn_proc_Ret [OF sp] obtain pid where
      p: "procs s4 = procs s3 @ [Forked Link pid (driver_argv w Link s3), Waited pid]" by blast
    have k4: "source_files s4 = source_files s3" "rootdir s4 = rootdir s3" "appl s4 = appl s3"
      "compiler s4 = compiler s3"
      using keeps_Ret [OF keeps_spawn [OF io_blind_fields(7) ctx_blind_fields(5)] sp]
        keeps_Ret [OF keeps_spawn [OF io_blind_fields(2) ctx_blind_fields(1)] sp]
        keeps_Ret [OF keeps_spawn [OF io_blind_fields(3) ctx_blind_fields(2)] sp]
        keeps_Ret [OF keeps_spawn [OF io_blind_fields(4) ctx_blind_fields(3)] sp]
      by simp_all
    have "cli_link_library w s3 = cli_link_library w s'"
      by (rule cli_link_library_cong) (simp_all add: e k4 printf_def)
    with False p e k3 k4 show ?thesis
      by (simp add: printf_def driver_argv_def)
  qed
qed

lemma cli_build_compile_none:
  "\<forall>cf \<in> set cfs. \<not> cf_build cf \<Longrightarrow> cli_build_compile w cfs rr s = Ret rr s"
  by (induction cfs) simp_all


subsection \<open>Facts about the concrete world\<close>

lemma demo_state_sel:
  "fs (demo_state f) = f" "stdout (demo_state f) = []" "stderr (demo_state f) = []"
  "procs (demo_state f) = []" "command (demo_state f) = Some ''build''"
  "compiler (demo_state f) = ''gcc''" "rootdir (demo_state f) = ''app''"
  "appl (demo_state f) = ''app''" "source_files (demo_state f) = []"
  by (simp_all add: demo_state_def)

lemma demo_world_sel:
  "w_fork demo_world n = Inr (100 + int n)" "w_waitpid demo_world pid = None"
  "w_execvp demo_world = demo_execvp"
  "w_fork crash_world n = Inr (100 + int n)" "w_waitpid crash_world pid = None"
  "w_execvp crash_world = (\<lambda>file argv fsys. Inr (Signaled 11 True, fsys))"
  by (simp_all add: demo_world_def crash_world_def)





subsection \<open>Supervision of children\<close>

text \<open>
  C9.  First conjunct: when \<^verbatim>\<open>fork\<close> gives \<open>pid\<close> and the \<^verbatim>\<open>waitpid\<close> on it succeeds, a child
  that ran and ended as \<open>ce\<close> (an exit code below 256, or a signal from 1 to 127 with or
  without a core dump) makes \<^verbatim>\<open>cli_spawn_proc\<close> return only for exit code 0; for every other
  exit code and for every signal the process exits with the line of
  \<^verbatim>\<open>subprocess trouble, check output\<close> as its last output.  The trace grows by one fork and
  one wait, and the wait is for the pid of that fork.  Second conjunct: a child whose
  \<^verbatim>\<open>execvp\<close> fails reports that itself and counts as exit code 1.  Third conjunct: when the
  supervisor exits on the compile of a unit, the compile loop ends in that very state,
  whatever units were still to come.  Fourth conjunct: the drivers forked by the compile
  loop are a prefix of the flagged units in registry order, so no unit is run twice.
\<close>
theorem subprocess_supervision:
  "(\<forall>pid ce fsys.
      w_fork w (length (procs s)) = Inr pid \<and> w_waitpid w pid = None \<and>
      w_execvp w (compiler s) (driver_argv w d s) (fs s) = Inr (ce, fsys) \<and>
      (case ce of Exited code \<Rightarrow> code < 256 | Signaled sig core \<Rightarrow> 0 < sig \<and> sig < 128) \<longrightarrow>
      cli_spawn_proc w d s =
        (if ce = Exited 0 then
           Ret () (s\<lparr>fs := fsys, procs := procs s @ [Forked d pid (driver_argv w d s), Waited pid]\<rparr>)
         else
           Exit (s\<lparr>fs := fsys, procs := procs s @ [Forked d pid (driver_argv w d s), Waited pid],
                   stdout := stdout s @ [cli_fatal_text ''subprocess trouble, check output'' s]\<rparr>))) \<and>
   (\<forall>pid e.
      w_fork w (length (procs s)) = Inr pid \<and> w_waitpid w pid = None \<and>
      w_execvp w (compiler s) (driver_argv w d s) (fs s) = Inl e \<longrightarrow>
      cli_spawn_proc w d s =
        Exit (s\<lparr>procs := procs s @ [Forked d pid (driver_argv w d s), Waited pid],
                stdout := stdout s @ [cli_fatal_text (''cli_spawn_proc: '' @ errno_s e) s,
                                      cli_fatal_text ''subprocess trouble, check output'' s]\<rparr>)) \<and>
   (\<forall>cf cfs rr s'.
      cf_build cf \<and>
      cli_spawn_proc w (Compile cf) (printf (''compiling '' @ cf_name cf @ ''\<newline>'') s) = Exit s' \<longrightarrow>
      cli_build_compile w (cf # cfs) rr s = Exit s') \<and>
   (\<forall>cfs rr. \<exists>evs.
      procs (state_of (cli_build_compile w cfs rr s)) = procs s @ evs \<and>
      prefix (spawned evs) (map Compile (filter cf_build cfs)))"
proof (intro conjI allI impI)
  fix pid ce fsys
  assume "w_fork w (length (procs s)) = Inr pid \<and> w_waitpid w pid = None \<and>
      w_execvp w (compiler s) (driver_argv w d s) (fs s) = Inr (ce, fsys) \<and>
      (case ce of Exited code \<Rightarrow> code < 256 | Signaled sig core \<Rightarrow> 0 < sig \<and> sig < 128)"
  then show "cli_spawn_proc w d s =
        (if ce = Exited 0 then
           Ret () (s\<lparr>fs := fsys, procs := procs s @ [Forked d pid (driver_argv w d s), Waited pid]\<rparr>)
         else
           Exit (s\<lparr>fs := fsys, procs := procs s @ [Forked d pid (driver_argv w d s), Waited pid],
                   stdout := stdout s @ [cli_fatal_text ''subprocess trouble, check output'' s]\<rparr>))"
    using cli_spawn_proc_run [of w s pid d ce fsys] by blast
next
  fix pid e
  assume "w_fork w (length (procs s)) = Inr pid \<and> w_waitpid w pid = None \<and>
      w_execvp w (compiler s) (driver_argv w d s) (fs s) = Inl e"
  then show "cli_spawn_proc w d s =
        Exit (s\<lparr>procs := procs s @ [Forked d pid (driver_argv w d s), Waited pid],
                stdout := stdout s @ [cli_fatal_text (''cli_spawn_proc: '' @ errno_s e) s,
                                      cli_fatal_text ''subprocess trouble, check output'' s]\<rparr>)"
    by (simp add: cli_spawn_proc_def Let_def cli_fatal_def printf_def cli_fatal_text_def exit_status)
next
  fix cf cfs rr s'
  assume "cf_build cf \<and>
      cli_spawn_proc w (Compile cf) (printf (''compiling '' @ cf_name cf @ ''\<newline>'') s) = Exit s'"
  then show "cli_build_compile w (cf # cfs) rr s = Exit s'"
    using cli_build_compile_abort by blast
next
  fix cfs rr
  show "\<exists>evs. procs (state_of (cli_build_compile w cfs rr s)) = procs s @ evs \<and>
      prefix (spawned evs) (map Compile (filter cf_build cfs))"
    using cli_build_compile_spawned [of w cfs rr s] by blast
qed


theorem subprocess_supervision_witness:
  "cli_spawn_proc crash_world (Compile demo_unit) (demo_state demo_fs) =
     Exit ((demo_state demo_fs)
            \<lparr>fs := demo_fs,
              procs := [Forked (Compile demo_unit) 100 demo_compile_argv, Waited 100],
              stdout := [''kore build: subprocess trouble, check output\<newline>'']\<rparr>) \<and>
   cli_spawn_proc demo_world (Compile demo_unit) (demo_state demo_fs) =
     Ret () ((demo_state demo_fs)
            \<lparr>fs := AList.update ''app/.objs/x.c.o'' (Reg 5000 ''ELF'') demo_fs,
              procs := [Forked (Compile demo_unit) 100 demo_compile_argv, Waited 100]\<rparr>)"
proof -
  have a: "driver_argv crash_world (Compile demo_unit) (demo_state demo_fs) = demo_compile_argv"
      "driver_argv demo_world (Compile demo_unit) (demo_state demo_fs) = demo_compile_argv"
    by (simp_all add: driver_argv_def cli_compile_cfile_def crash_world_def demo_world_def
        demo_state_def demo_unit_def demo_compile_argv_def)
  have l: "last demo_compile_argv = ''app/.objs/x.c.o''"
    by (simp add: demo_compile_argv_def)
  have h1: "w_fork crash_world (length (procs (demo_state demo_fs))) = Inr 100 \<and>
      w_waitpid crash_world 100 = None \<and>
      w_execvp crash_world (compiler (demo_state demo_fs))
        (driver_argv crash_world (Compile demo_unit) (demo_state demo_fs)) (fs (demo_state demo_fs)) =
        Inr (Signaled 11 True, demo_fs) \<and>
      (case Signaled 11 True of Exited code \<Rightarrow> code < 256 | Signaled sig core \<Rightarrow> 0 < sig \<and> sig < 128)"
    by (simp add: demo_world_sel demo_state_sel)
  have h2: "w_fork demo_world (length (procs (demo_state demo_fs))) = Inr 100 \<and>
      w_waitpid demo_world 100 = None \<and>
      w_execvp demo_world (compiler (demo_state demo_fs))
        (driver_argv demo_world (Compile demo_unit) (demo_state demo_fs)) (fs (demo_state demo_fs)) =
        Inr (Exited 0, AList.update ''app/.objs/x.c.o'' (Reg 5000 ''ELF'') demo_fs) \<and>
      (case Exited 0 of Exited code \<Rightarrow> code < 256 | Signaled sig core \<Rightarrow> 0 < sig \<and> sig < 128)"
    by (simp add: a l demo_world_sel demo_state_sel demo_execvp_def)
  have c: "cli_fatal_text ''subprocess trouble, check output'' (demo_state demo_fs) =
      ''kore build: subprocess trouble, check output\<newline>''"
    by (simp add: cli_fatal_text_def demo_state_sel)
  show ?thesis
    using
      subprocess_supervision [of crash_world "demo_state demo_fs" "Compile demo_unit",
        THEN conjunct1, rule_format, OF h1]
      subprocess_supervision [of demo_world "demo_state demo_fs" "Compile demo_unit",
        THEN conjunct1, rule_format, OF h2]
    by (simp add: a c demo_state_sel)
qed


subsection \<open>The object's modification time after a compile\<close>




subsection \<open>The link step\<close>

text \<open>
  C2.  For a build that returns, over a registry of fewer than \<open>2 ^ 31\<close> units (the range
  of the C \<^verbatim>\<open>int\<close> counters): the children forked are the compiles of the flagged units in
  registry order, followed by one link exactly when some unit is flagged.  With no unit
  flagged the process trace is unchanged and the last line printed is
  \<^verbatim>\<open>nothing to be done\<close>.  With a unit flagged the trace ends with the fork of the link
  and the wait for it, and the argument vector of the link holds the object paths of all
  units of the registry, flagged or not, in registry order, and ends with
  \<^verbatim>\<open><rootdir>/<appl>.so\<close>.
\<close>
theorem cli_build_link_step:
  assumes "cli_build w argv s = Ret () s'"
      and "length (source_files s') < 2 ^ 31"
  shows "spawned (procs s') = spawned (procs s) @ map Compile (filter cf_build (source_files s')) @
           (if \<exists>cf \<in> set (source_files s'). cf_build cf then [Link] else []) \<and>
         ((\<forall>cf \<in> set (source_files s'). \<not> cf_build cf) \<longrightarrow>
            procs s' = procs s \<and> stdout s' \<noteq> [] \<and> last (stdout s') = ''nothing to be done\<newline>'') \<and>
         ((\<exists>cf \<in> set (source_files s'). cf_build cf) \<longrightarrow>
            (\<exists>evs pid. procs s' = procs s @ evs @ [Forked Link pid (cli_link_library w s'), Waited pid] \<and>
               spawned evs = map Compile (filter cf_build (source_files s'))) \<and>
            (\<exists>pre mid. cli_link_library w s' =
               pre @ map cf_opath (source_files s') @ mid @ [rootdir s' @ ''/'' @ appl s' @ ''.so'']))"
proof -
  from assms(1) obtain sA sB sC rr sD where
    i: "cli_build_init w argv s = Ret () sA" and
    a: "cli_build_assets w sA = Ret () sB" and
    b: "cli_build_sources w sB = Ret () sC" and
    c: "cli_build_compile w (source_files sC) 0 sC = Ret rr sD" and
    f: "cli_build_finish w rr sD = Ret () s'"
    unfolding cli_build_def by (elim bind_RetE) auto
  have pC: "procs sC = procs s"
    using keeps_Ret [OF keeps_build_init i]
      keeps_Ret [OF keeps_build_assets [OF io_blind_fields(1) reg_blind_fields(1) fd_blind_fields(1)] a]
      keeps_Ret [OF keeps_build_sources [OF io_blind_fields(1) reg_blind_fields(1)] b]
    by simp
  have kD: "source_files sD = source_files sC" "rootdir sD = rootdir sC" "appl sD = appl sC"
      "compiler sD = compiler sC"
    using keeps_build_compile [OF io_blind_fields(7) ctx_blind_fields(5), of w "source_files sC" 0 sC]
      keeps_build_compile [OF io_blind_fields(2) ctx_blind_fields(1), of w "source_files sC" 0 sC]
      keeps_build_compile [OF io_blind_fields(3) ctx_blind_fields(2), of w "source_files sC" 0 sC]
      keeps_build_compile [OF io_blind_fields(4) ctx_blind_fields(3), of w "source_files sC" 0 sC]
    by (simp_all add: c)
  note fin = cli_build_finish_Ret [OF f]
  from fin kD have sf: "source_files s' = source_files sC" by simp
  from cli_build_compile_spawned [of w "source_files sC" 0 sC] c pC
  obtain evs where spD: "procs sD = procs s @ evs"
      "spawned evs = map Compile (filter cf_build (source_files sC))"
    by auto
  have rr: "rr = of_nat (length (filter cf_build (source_files sC)))"
    using cli_build_compile_count [OF c] by simp
  have "length (filter cf_build (source_files sC)) < 2 ^ 32"
    using assms(2) sf le_less_trans [OF length_filter_le [of cf_build "source_files sC"], of "2 ^ 31"]
    by simp
  then have rr0: "rr = 0 \<longleftrightarrow> filter cf_build (source_files sC) = []"
    unfolding rr by (simp add: of_nat_32_eq_0)
  have any: "(\<exists>cf \<in> set (source_files s'). cf_build cf) \<longleftrightarrow> rr \<noteq> 0"
    unfolding rr0 sf by (simp add: filter_empty_conv)
  have lib: "\<exists>pre mid. cli_link_library w s' =
      pre @ map cf_opath (source_files s') @ mid @ [rootdir s' @ ''/'' @ appl s' @ ''.so'']"
  proof -
    have "cli_link_library w s' =
        ([compiler s'] @
         (if w_mach w then [''-dynamiclib'', ''-undefined'', ''suppress'', ''-flat_namespace'']
          else [''-shared''])) @
        map cf_opath (source_files s') @
        ((if \<exists>cf \<in> set (source_files s'). cf_cpp cf then
            [case w_getenv w ''CXXLIB'' of Some p \<Rightarrow> ''-l'' @ p | None \<Rightarrow> ''-lstdc++'']
          else []) @
         (case w_getenv w ''LDFLAGS'' of Some p \<Rightarrow> w_split_string w p LD_FLAGS_MAX | None \<Rightarrow> []) @
         [''-o'']) @
        [rootdir s' @ ''/'' @ appl s' @ ''.so'']"
      by (simp add: cli_link_library_def)
    then show ?thesis by (intro exI)
  qed
  show ?thesis
  proof (cases "rr = 0")
    case True
    with fin have e: "procs s' = procs sD" "stdout s' \<noteq> []"
        "last (stdout s') = ''nothing to be done\<newline>''"
      by simp_all
    from True rr0 have n: "filter cf_build (source_files sC) = []" by simp
    with spD have "spawned evs = []" by simp
    have "\<forall>cf \<in> set (source_files sC). \<not> cf_build cf"
      using n by (simp add: filter_empty_conv)
    from cli_build_compile_none [OF this, of w 0 sC] c have "sD = sC" by simp
    with pC e have "procs s' = procs s" by simp
    with e n any True sf show ?thesis
      by simp

  next
    case False
    with fin obtain pid where
      e: "procs s' = procs sD @ [Forked Link pid (cli_link_library w s'), Waited pid]"
      by auto
    from False any have a: "\<exists>cf \<in> set (source_files s'). cf_build cf" by simp
    have "procs s' = procs s @ evs @ [Forked Link pid (cli_link_library w s'), Waited pid]"
      using e spD by simp
    moreover have "spawned (procs s') =
        spawned (procs s) @ map Compile (filter cf_build (source_files s')) @ [Link]"
      using e spD sf by simp
    ultimately show ?thesis
      using a spD(2) lib sf by (simp only: if_True) blast
  qed
qed

theorem cli_build_link_step_witness:
  "spawned (procs demo_built) = [Compile demo_unit, Link] \<and>
   (\<exists>evs pid. procs demo_built = evs @ [Forked Link pid (cli_link_library demo_world demo_built), Waited pid] \<and>
       spawned evs = [Compile demo_unit]) \<and>
   (\<exists>pre mid. cli_link_library demo_world demo_built = pre @ [''app/.objs/x.c.o''] @ mid @ [''app/app.so'']) \<and>
   procs demo_rebuilt = [] \<and> last (stdout demo_rebuilt) = ''nothing to be done\<newline>''"
proof -
  have ev1: "cli_build demo_world [''app''] (start_state ''build'' demo_fs) = Ret () demo_built"
    by code_simp
  have ev2: "cli_build demo_world [''app''] (start_state ''build'' (fs demo_built)) = Ret () demo_rebuilt"
    by code_simp
  have l: "length (source_files demo_built) < 2 ^ 31" "length (source_files demo_rebuilt) < 2 ^ 31"
    by (simp_all add: demo_built_def demo_rebuilt_def)
  have a: "source_files demo_built = [demo_unit]" "cf_build demo_unit" "rootdir demo_built = ''app''"
    "appl demo_built = ''app''" "cf_opath demo_unit = ''app/.objs/x.c.o''"
    "source_files demo_rebuilt = [demo_unit\<lparr>cf_build := False\<rparr>]"
    by (simp_all add: demo_built_def demo_rebuilt_def demo_unit_def)
  have p: "procs (start_state ''build'' f) = []" for f
    by (simp add: start_state_def)
  show ?thesis
    using cli_build_link_step [OF ev1 l(1)] cli_build_link_step [OF ev2 l(2)]
    by (simp add: a p)
qed

subsection \<open>Names and object paths of the registry\<close>





















end
